theory Spec2Isabelle
  imports Main "HOL-Library.Sublist"
begin

section \<open>Shared data model\<close>

text \<open>
  Times are JavaScript \<^verbatim>\<open>Date.now()\<close> values: milliseconds as integers. The browser's
  \<^verbatim>\<open>localStorage\<close> is a record with one optional field per key the code uses; a numeric
  key holds the integer that \<^verbatim>\<open>toString\<close> wrote and \<^verbatim>\<open>parseInt\<close> reads back.
\<close>

record user =
  userId :: string
  user_email :: string
  user_name :: string

text \<open>
  The value under \<^verbatim>\<open>user_info\<close> is the string \<^verbatim>\<open>JSON.stringify(user)\<close> wrote. It is kept as
  what \<^verbatim>\<open>JSON.parse\<close> makes of it: a user object, or a string on which parsing throws.
\<close>

datatype user_info_item = Unparsable string | UserJson user

record local_storage =
  ls_access_token :: "string option"
  ls_refresh_token :: "string option"
  ls_user_id :: "string option"
  ls_user_info :: "user_info_item option"
  ls_token_expires_at :: "int option"
  ls_recentlyReauthorized :: "string option"
  ls_lastReauthorizationTime :: "int option"
  ls_pending_file_id :: "string option"
  ls_direct_file_id_oauth :: "string option"
  ls_selected_image_oauth :: "string option"
  ls_code_verifier :: "string option"
  ls_post_login_redirect :: "string option"

text \<open>JavaScript truthiness of a value that is a string or null/undefined.\<close>

definition truthy :: "string option \<Rightarrow> bool" where
  "truthy v = (case v of None \<Rightarrow> False | Some s \<Rightarrow> s \<noteq> [])"

text \<open>\<^verbatim>\<open>a || b\<close> on such values.\<close>

definition js_or :: "string option \<Rightarrow> string option \<Rightarrow> string option" where
  "js_or a b = (if truthy a then a else b)"

section \<open>authApi: token expiry bookkeeping (client/src/api/authApi.ts)\<close>

definition storeTokenWithExpiration :: "int \<Rightarrow> string \<Rightarrow> int \<Rightarrow> local_storage \<Rightarrow> local_storage" where
  "storeTokenWithExpiration now accessToken expiresIn ls =
     (let expirationTime = now + ((expiresIn - 300) * 1000)
      in ls\<lparr>ls_access_token := Some accessToken, ls_token_expires_at := Some expirationTime\<rparr>)"

definition isTokenExpiredOrExpiring :: "int \<Rightarrow> local_storage \<Rightarrow> bool" where
  "isTokenExpiredOrExpiring now ls =
     (case ls_token_expires_at ls of
        None \<Rightarrow> False
      | Some expirationTime \<Rightarrow>
          (let fiveMinutesFromNow = now + (5 * 60 * 1000)
           in expirationTime \<le> fiveMinutesFromNow))"

text \<open>An empty \<^verbatim>\<open>localStorage\<close>.\<close>

definition empty_storage :: local_storage where
  "empty_storage = \<lparr>ls_access_token = None, ls_refresh_token = None, ls_user_id = None,
     ls_user_info = None, ls_token_expires_at = None, ls_recentlyReauthorized = None,
     ls_lastReauthorizationTime = None, ls_pending_file_id = None,
     ls_direct_file_id_oauth = None, ls_selected_image_oauth = None,
     ls_code_verifier = None, ls_post_login_redirect = None\<rparr>"

section \<open>The storage provider as seen by the validators\<close>

text \<open>
  A provider call either returns or throws. The thrown object has the shape the code reads
  (\<^verbatim>\<open>status\<close>, \<^verbatim>\<open>error.error_summary\<close>, \<^verbatim>\<open>message\<close>); \<open>err_network\<close> records that the call
  failed because the provider could not be reached (network error or timeout) and not
  because the provider answered with an error. The code never looks at that flag.
\<close>

record api_error =
  err_network :: bool
  err_status :: "nat option"
  err_summary :: "string option"
  err_message :: "string option"

record account =
  account_id :: string
  account_email :: string
  account_name :: string

record provider =
  usersGetCurrentAccount :: "string \<Rightarrow> api_error + account"
  filesListFolder :: "string \<Rightarrow> api_error + nat"
  usersGetSpaceUsage :: "string \<Rightarrow> api_error + nat"

text \<open>A provider call made by the hook, for counting the probes of a run.\<close>

datatype net_call = UsersGetCurrentAccount string

text \<open>\<^verbatim>\<open>(error as Error).message\<close>: undefined when the thrown object has no message.\<close>

definition message_of :: "api_error \<Rightarrow> string option" where
  "message_of e = err_message e"

text \<open>\<^verbatim>\<open>s || d\<close> where the result is used as a string.\<close>

definition or_default :: "string option \<Rightarrow> string \<Rightarrow> string" where
  "or_default v d = (case v of None \<Rightarrow> d | Some s \<Rightarrow> if s = [] then d else s)"

section \<open>Client validation utilities (src/unnamed/part_003)\<close>

record validation_result =
  isValid :: bool
  vr_reason :: "string option"
  vr_error :: "string option"
  shouldShowBanner :: "bool option"
  shouldReauth :: "bool option"
  sessionMismatch :: "bool option"
  accountId :: "string option"
  accountEmail :: "string option"
  accountName :: "string option"

definition blank_result :: "bool \<Rightarrow> validation_result" where
  "blank_result v = \<lparr>isValid = v, vr_reason = None, vr_error = None, shouldShowBanner = None,
     shouldReauth = None, sessionMismatch = None, accountId = None, accountEmail = None,
     accountName = None\<rparr>"

definition validateCurrentAccount :: "local_storage \<Rightarrow> provider \<Rightarrow> validation_result" where
  "validateCurrentAccount ls prov =
     (if \<not> truthy (ls_access_token ls) \<or> \<not> truthy (ls_user_id ls)
      then (blank_result False)\<lparr>vr_reason := Some ''Missing stored credentials'',
             vr_error := Some ''Missing stored credentials''\<rparr>
      else
        (case usersGetCurrentAccount prov (the (ls_access_token ls)) of
           Inl e \<Rightarrow>
             (blank_result False)\<lparr>vr_reason := Some ''Token validation failed'',
                vr_error := message_of e, shouldReauth := Some True\<rparr>
         | Inr currentAccount \<Rightarrow>
             (if account_id currentAccount \<noteq> the (ls_user_id ls)
              then (blank_result False)\<lparr>vr_reason := Some ''Account mismatch detected'',
                     vr_error := Some ''Account mismatch detected'',
                     shouldShowBanner := Some True, shouldReauth := Some True,
                     sessionMismatch := Some True,
                     accountId := Some (account_id currentAccount),
                     accountEmail := Some (account_email currentAccount),
                     accountName := Some (account_name currentAccount)\<rparr>
              else (blank_result True)\<lparr>accountId := Some (account_id currentAccount),
                     accountEmail := Some (account_email currentAccount),
                     accountName := Some (account_name currentAccount)\<rparr>)))"

text \<open>
  The verdict of a failed functional probe: \<^verbatim>\<open>isValid: false\<close>, the session-mismatch flags and
  the account found by the identity check.
\<close>

definition probe_failed :: "string \<Rightarrow> string \<Rightarrow> validation_result \<Rightarrow> validation_result" where
  "probe_failed r e basicValidation =
     (blank_result False)\<lparr>vr_reason := Some r, vr_error := Some e,
        shouldShowBanner := Some True, sessionMismatch := Some True,
        accountId := accountId basicValidation,
        accountEmail := accountEmail basicValidation,
        accountName := accountName basicValidation\<rparr>"

text \<open>\<^verbatim>\<open>s.includes(pat)\<close>: pat occurs in s as a contiguous substring.\<close>

fun js_includes :: "string \<Rightarrow> string \<Rightarrow> bool" where
  "js_includes [] pat = (pat = [])"
| "js_includes (c # cs) pat = (prefix pat (c # cs) \<or> js_includes cs pat)"

text \<open>\<^verbatim>\<open>listError instanceof Error && listError.message.includes('401')\<close>\<close>

definition mentions_401 :: "api_error \<Rightarrow> bool" where
  "mentions_401 e = (case err_message e of None \<Rightarrow> False | Some m \<Rightarrow> js_includes m ''401'')"

definition validateSessionConsistency :: "local_storage \<Rightarrow> provider \<Rightarrow> validation_result" where
  "validateSessionConsistency ls prov =
     (if \<not> truthy (ls_access_token ls) \<or> \<not> truthy (ls_user_id ls)
      then (blank_result False)\<lparr>vr_reason := Some ''Missing credentials'',
             vr_error := Some ''Missing credentials''\<rparr>
      else
        (let basicValidation = validateCurrentAccount ls prov in
         if \<not> isValid basicValidation then basicValidation
         else
           (case filesListFolder prov (the (ls_access_token ls)) of
              Inl listError \<Rightarrow>
                (if mentions_401 listError
                 then probe_failed ''Session mismatch detected via API test''
                        ''API access failed - session mismatch'' basicValidation
                 else probe_failed ''API access failed''
                        ''API calls failing - possible session mismatch'' basicValidation)
            | Inr _ \<Rightarrow>
                (case usersGetSpaceUsage prov (the (ls_access_token ls)) of
                   Inl spaceError \<Rightarrow>
                     probe_failed ''Session mismatch detected via space usage test''
                       ''Space usage API failed - session mismatch'' basicValidation
                 | Inr _ \<Rightarrow>
                     (blank_result True)\<lparr>accountId := accountId basicValidation,
                        accountEmail := accountEmail basicValidation,
                        accountName := accountName basicValidation\<rparr>))))"

section \<open>The application store (client/src/store/index.ts)\<close>

record image_file =
  img_id :: string
  img_name :: string

datatype intent_action = Processing | Selection

record saved_intent =
  si_route :: "string option"
  si_fileId :: "string option"
  si_action :: "intent_action option"

record mismatch_info =
  mi_currentAccount :: "string option"
  mi_storedAccount :: "string option"
  mi_error :: "string option"

datatype step = StepSelection | StepProcessing | StepResults

record app_store =
  isAuthenticated :: bool
  userInfo :: "user option"
  accessToken :: "string option"
  isCheckingAuth :: bool
  isLoggingIn :: bool
  loginProgress :: string
  recentlyReauthorized :: bool
  lastReauthorizationTime :: int
  images :: "image_file list"
  selectedImage :: "image_file option"
  selectedImageThumbnail :: "string option"
  processingResult :: "string option"
  currentStep :: step
  status :: string
  directFileId :: "string option"
  showAccountSwitchBanner :: bool
  showAccountMismatchBanner :: bool
  accountMismatchInfo :: mismatch_info
  savedIntent :: "saved_intent option"

text \<open>The store's initial state: what a page load starts from.\<close>

definition initial_store :: app_store where
  "initial_store = \<lparr>isAuthenticated = False, userInfo = None, accessToken = None,
     isCheckingAuth = True, isLoggingIn = False, loginProgress = [],
     recentlyReauthorized = False, lastReauthorizationTime = 0,
     images = [], selectedImage = None, selectedImageThumbnail = None,
     processingResult = None, currentStep = StepSelection, status = [],
     directFileId = None, showAccountSwitchBanner = False,
     showAccountMismatchBanner = False,
     accountMismatchInfo = \<lparr>mi_currentAccount = None, mi_storedAccount = None, mi_error = None\<rparr>,
     savedIntent = None\<rparr>"

definition clearAuth :: "app_store \<times> local_storage \<Rightarrow> app_store \<times> local_storage" where
  "clearAuth sl =
     (case sl of (st, ls) \<Rightarrow>
        (st\<lparr>accessToken := None, isAuthenticated := False, userInfo := None,
            isCheckingAuth := False\<rparr>,
         ls\<lparr>ls_access_token := None, ls_refresh_token := None, ls_user_id := None,
            ls_user_info := None, ls_token_expires_at := None, ls_code_verifier := None,
            ls_post_login_redirect := None\<rparr>))"

section \<open>The account validation hook (useAccountValidation, in client/src/hooks/useAuth.ts)\<close>

record account_validation_result =
  av_isValid :: bool
  av_currentAccount :: "account option"
  av_storedAccount :: "user option"
  av_error :: "string option"

text \<open>
  The hook's own \<^verbatim>\<open>validateCurrentAccount\<close>: it reads the token and the user from the store
  and returns its verdict together with the provider calls it made.
\<close>

definition hook_validateCurrentAccount ::
    "app_store \<Rightarrow> provider \<Rightarrow> account_validation_result \<times> net_call list" where
  "hook_validateCurrentAccount st prov =
     (if \<not> truthy (accessToken st) \<or> userInfo st = None
      then (\<lparr>av_isValid = False, av_currentAccount = None, av_storedAccount = None,
              av_error = Some ''No authentication credentials''\<rparr>, [])
      else
        (let tok = the (accessToken st); u = the (userInfo st) in
         case usersGetCurrentAccount prov tok of
           Inl e \<Rightarrow>
             (\<lparr>av_isValid = False, av_currentAccount = None, av_storedAccount = None,
               av_error = Some (or_default (err_message e) ''Unknown validation error'')\<rparr>,
              [UsersGetCurrentAccount tok])
         | Inr currentAccount \<Rightarrow>
             (if account_id currentAccount \<noteq> userId u
              then (\<lparr>av_isValid = False, av_currentAccount = Some currentAccount,
                      av_storedAccount = Some u,
                      av_error = Some ''Account ID mismatch detected''\<rparr>,
                    [UsersGetCurrentAccount tok])
              else (\<lparr>av_isValid = True, av_currentAccount = None, av_storedAccount = None,
                      av_error = None\<rparr>,
                    [UsersGetCurrentAccount tok]))))"

text \<open>\<^verbatim>\<open>a?.email || a?.id || 'Unknown'\<close>\<close>

definition first_nonempty :: "string option \<Rightarrow> string option \<Rightarrow> string \<Rightarrow> string" where
  "first_nonempty a b d = or_default (js_or a b) d"

definition showAccountMismatch :: "account_validation_result \<Rightarrow> app_store \<Rightarrow> app_store" where
  "showAccountMismatch result st =
     st\<lparr>accountMismatchInfo :=
          \<lparr>mi_currentAccount =
             Some (first_nonempty (map_option account_email (av_currentAccount result))
                     (map_option account_id (av_currentAccount result)) ''Unknown''),
           mi_storedAccount =
             Some (first_nonempty (map_option user_email (av_storedAccount result))
                     (map_option userId (av_storedAccount result)) ''Unknown''),
           mi_error = Some (or_default (av_error result) ''Account mismatch detected'')\<rparr>,
        showAccountMismatchBanner := True\<rparr>"

datatype operation_type = STARTUP | ERROR_409 | USER_OPERATION

definition GRACE_PERIOD :: int where
  "GRACE_PERIOD = 5 * 60 * 1000"

text \<open>
  \<^verbatim>\<open>validateBeforeOperation(operationType)\<close> at time \<open>now\<close>: the boolean it resolves to, the
  provider calls it made, and the store afterwards. \<^verbatim>\<open>lastReauthorizationTime\<close> is a number,
  falsy when 0.
\<close>

definition validateBeforeOperation ::
    "operation_type \<Rightarrow> int \<Rightarrow> app_store \<Rightarrow> provider \<Rightarrow> bool \<times> net_call list \<times> app_store" where
  "validateBeforeOperation operationType now st prov =
     (let inGraceCheck = (operationType = USER_OPERATION \<and> recentlyReauthorized st
                           \<and> lastReauthorizationTime st \<noteq> 0);
          timeSinceReauth = now - lastReauthorizationTime st
      in
      if inGraceCheck \<and> timeSinceReauth < GRACE_PERIOD then (True, [], st)
      else
        (let st1 = (if inGraceCheck then st\<lparr>recentlyReauthorized := False\<rparr> else st);
             vc = hook_validateCurrentAccount st prov
         in
         if \<not> av_isValid (fst vc) then (False, snd vc, showAccountMismatch (fst vc) st1)
         else (True, snd vc, st1)))"

section \<open>Window events\<close>

record event_detail =
  ev_accountEmail :: "string option"
  ev_accountId :: "string option"
  ev_accountName :: "string option"
  ev_storedEmail :: "string option"
  ev_storedId :: "string option"
  ev_error :: "string option"
  ev_source :: "string option"
  ev_confirmed :: "bool option"
  ev_errorCount :: "nat option"
  ev_statusCode :: "nat option"

definition no_detail :: event_detail where
  "no_detail = \<lparr>ev_accountEmail = None, ev_accountId = None, ev_accountName = None,
     ev_storedEmail = None, ev_storedId = None, ev_error = None, ev_source = None,
     ev_confirmed = None, ev_errorCount = None, ev_statusCode = None\<rparr>"

datatype window_event = AccountMismatch event_detail | AccountSwitchDetected event_detail

text \<open>Truthiness of the stored \<^verbatim>\<open>user_info\<close> string, and \<^verbatim>\<open>parsed.email || 'unknown'\<close>.\<close>

definition user_info_truthy :: "user_info_item option \<Rightarrow> bool" where
  "user_info_truthy v =
     (case v of None \<Rightarrow> False | Some (Unparsable s) \<Rightarrow> s \<noteq> [] | Some (UserJson u) \<Rightarrow> True)"

section \<open>Immediate validation (client/src/utils/immediateValidation.ts)\<close>

text \<open>
  The result is the promise's value (\<open>None\<close> for the bare \<^verbatim>\<open>return\<close>), the events dispatched on
  the window, and \<^verbatim>\<open>localStorage\<close> afterwards. When the stored user info is absent the code
  parses \<^verbatim>\<open>'{}'\<close>, whose email is undefined.
\<close>

definition immediate_storedEmail :: "user_info_item option \<Rightarrow> string" where
  "immediate_storedEmail v =
     (case v of
        Some (UserJson u) \<Rightarrow> or_default (Some (user_email u)) ''unknown''
      | _ \<Rightarrow> ''unknown'')"

definition triggerImmediateAccountValidation ::
    "bool \<Rightarrow> int \<Rightarrow> local_storage \<Rightarrow> provider \<Rightarrow> bool option \<times> window_event list \<times> local_storage" where
  "triggerImmediateAccountValidation ignoreGracePeriod now ls prov =
     (let graceCheck = (\<not> ignoreGracePeriod \<and> ls_recentlyReauthorized ls = Some ''true''
                         \<and> ls_lastReauthorizationTime ls \<noteq> None)
      in
      if graceCheck \<and> now - the (ls_lastReauthorizationTime ls) < 5 * 60 * 1000
      then (Some True, [], ls)
      else
        (let ls1 = (if graceCheck
                    then ls\<lparr>ls_recentlyReauthorized := None, ls_lastReauthorizationTime := None\<rparr>
                    else ls)
         in
         if \<not> truthy (ls_access_token ls1) \<or> \<not> truthy (ls_user_id ls1)
         then (None,
               [AccountMismatch (no_detail\<lparr>ev_accountEmail := Some ''Missing credentials'',
                  ev_accountId := Some ''unknown'',
                  ev_error := Some ''Missing authentication credentials'',
                  ev_source := Some ''immediate-validation''\<rparr>)],
               ls1)
         else
           (let tok = the (ls_access_token ls1); storedUserId = the (ls_user_id ls1) in
            case usersGetCurrentAccount prov tok of
              Inl e \<Rightarrow>
                (Some False,
                 [AccountMismatch (no_detail\<lparr>ev_accountEmail := Some ''Validation failed'',
                    ev_accountId := Some ''unknown'',
                    ev_error := Some (or_default (err_message e) ''Immediate validation failed''),
                    ev_source := Some ''immediate-validation-error''\<rparr>)],
                 ls1)
            | Inr currentAccount \<Rightarrow>
                (if account_id currentAccount \<noteq> storedUserId
                 then (Some False,
                       [AccountMismatch (no_detail\<lparr>
                          ev_accountEmail := Some (account_email currentAccount),
                          ev_accountId := Some (account_id currentAccount),
                          ev_accountName := Some (account_name currentAccount),
                          ev_storedEmail := Some (immediate_storedEmail (ls_user_info ls1)),
                          ev_storedId := Some storedUserId,
                          ev_error := Some ''Account mismatch detected during immediate validation'',
                          ev_source := Some ''immediate-validation'',
                          ev_confirmed := Some True\<rparr>)],
                       ls1)
                 else (Some True, [], ls1)))))"

section \<open>Comprehensive check (client/src/utils/comprehensiveAccountCheck.ts)\<close>

record comprehensive_result =
  cr_isValid :: bool
  cr_issues :: "string list"
  cr_currentAccount :: "account option"
  cr_storedAccount :: "(string \<times> string) option"

text \<open>\<^verbatim>\<open>issues.join('; ')\<close>\<close>

fun js_join :: "string \<Rightarrow> string list \<Rightarrow> string" where
  "js_join sep [] = []"
| "js_join sep [x] = x"
| "js_join sep (x # y # ys) = x @ sep @ js_join sep (y # ys)"

definition missing_issues :: "local_storage \<Rightarrow> string list" where
  "missing_issues ls =
     (if \<not> truthy (ls_access_token ls) then [''Missing access token''] else []) @
     (if \<not> truthy (ls_user_id ls) then [''Missing stored user ID''] else []) @
     (if \<not> user_info_truthy (ls_user_info ls) then [''Missing stored user info''] else [])"

definition performComprehensiveAccountCheck :: "local_storage \<Rightarrow> provider \<Rightarrow> comprehensive_result" where
  "performComprehensiveAccountCheck ls prov =
     (let issues = missing_issues ls in
      if issues \<noteq> []
      then \<lparr>cr_isValid = False, cr_issues = issues, cr_currentAccount = None,
             cr_storedAccount = None\<rparr>
      else
        (let parsed = (case ls_user_info ls of Some (UserJson u) \<Rightarrow> Some u | _ \<Rightarrow> None);
             storedUserEmail = (case parsed of Some u \<Rightarrow> or_default (Some (user_email u)) ''unknown''
                                | None \<Rightarrow> ''unknown'');
             issues2 = (case parsed of Some u \<Rightarrow> issues
                        | None \<Rightarrow> issues @ [''Could not parse stored user info'']);
             tok = the (ls_access_token ls);
             storedUserId = the (ls_user_id ls)
         in
         case usersGetCurrentAccount prov tok of
           Inl e \<Rightarrow>
             \<lparr>cr_isValid = False,
              cr_issues = issues2 @ [''Account info fetch failed: '' @
                            or_default (js_or (err_summary e) (err_message e)) ''undefined''],
              cr_currentAccount = None, cr_storedAccount = None\<rparr>
         | Inr currentAccount \<Rightarrow>
             (if account_id currentAccount \<noteq> storedUserId
              then \<lparr>cr_isValid = False,
                     cr_issues = issues2 @ [''Account ID mismatch detected''],
                     cr_currentAccount = Some currentAccount,
                     cr_storedAccount = Some (storedUserId, storedUserEmail)\<rparr>
              else \<lparr>cr_isValid = True, cr_issues = [],
                     cr_currentAccount = Some currentAccount,
                     cr_storedAccount = Some (storedUserId, storedUserEmail)\<rparr>)))"

definition triggerComprehensiveAccountCheck :: "local_storage \<Rightarrow> provider \<Rightarrow> bool \<times> window_event list" where
  "triggerComprehensiveAccountCheck ls prov =
     (let result = performComprehensiveAccountCheck ls prov in
      if \<not> cr_isValid result
      then (False,
            [AccountMismatch (no_detail\<lparr>
               ev_accountEmail := Some (or_default (map_option account_email (cr_currentAccount result)) ''Unknown''),
               ev_accountId := Some (or_default (map_option account_id (cr_currentAccount result)) ''Unknown''),
               ev_accountName := Some (or_default (map_option account_name (cr_currentAccount result)) ''Unknown''),
               ev_storedEmail := Some (or_default (map_option snd (cr_storedAccount result)) ''Unknown''),
               ev_storedId := Some (or_default (map_option fst (cr_storedAccount result)) ''Unknown''),
               ev_error := Some (js_join ''; '' (cr_issues result)),
               ev_source := Some ''comprehensive-check'',
               ev_confirmed := Some True\<rparr>)])
      else (True, []))"

text \<open>Reading a dispatched event: is it the mismatch signal, and what is its confirmed flag.\<close>

fun is_mismatch_signal :: "window_event \<Rightarrow> bool" where
  "is_mismatch_signal (AccountMismatch d) = True"
| "is_mismatch_signal (AccountSwitchDetected d) = False"

fun confirmed_flag :: "window_event \<Rightarrow> bool option" where
  "confirmed_flag (AccountMismatch d) = ev_confirmed d"
| "confirmed_flag (AccountSwitchDetected d) = ev_confirmed d"

section \<open>Fetch interception (client/src/utils/accountSwitchDetection.ts)\<close>

text \<open>
  A response as the interceptor reads it: its status and what \<^verbatim>\<open>response.clone().json()\<close>
  gives, either a throw (\<open>NotJson\<close>) or a body whose \<^verbatim>\<open>error.error_summary\<close> is present or not.
\<close>

datatype resp_body = NotJson | JsonBody "string option"

record http_response =
  resp_status :: nat
  resp_body :: resp_body

definition resp_ok :: "http_response \<Rightarrow> bool" where
  "resp_ok r = (200 \<le> resp_status r \<and> resp_status r \<le> 299)"

text \<open>\<^verbatim>\<open>data?.error?.error_summary?.includes('path/not_found')\<close> on a 409 response.\<close>

definition cross_account_409 :: "http_response \<Rightarrow> bool" where
  "cross_account_409 r =
     (resp_status r = 409 \<and>
      (case resp_body r of
         NotJson \<Rightarrow> False
       | JsonBody None \<Rightarrow> False
       | JsonBody (Some summary) \<Rightarrow> js_includes summary ''path/not_found''))"

text \<open>
  One pass of the \<^verbatim>\<open>then\<close> callback installed by \<^verbatim>\<open>initializeAccountSwitchDetection\<close>, from the
  module-level counter \<^verbatim>\<open>consecutiveErrors\<close> to its new value and the events dispatched.
\<close>

definition on_response :: "nat \<Rightarrow> http_response \<Rightarrow> nat \<times> window_event list" where
  "on_response consecutiveErrors r =
     (if resp_status r = 409
      then (if cross_account_409 r
            then (let c = consecutiveErrors + 1 in
                  if c \<ge> 2
                  then (0, [AccountSwitchDetected (no_detail\<lparr>ev_source := Some ''fetch-interceptor'',
                              ev_errorCount := Some c,
                              ev_error := Some ''Multiple cross-account 409 errors detected''\<rparr>)])
                  else (c, []))
            else (consecutiveErrors, []))
      else if resp_ok r then (0, [])
      else (consecutiveErrors, []))"

text \<open>The responses of successive fetches, in the order they arrive.\<close>

fun on_responses :: "nat \<Rightarrow> http_response list \<Rightarrow> nat \<times> window_event list" where
  "on_responses c [] = (c, [])"
| "on_responses c (r # rs) =
     (case on_response c r of (c1, evs) \<Rightarrow>
        (case on_responses c1 rs of (c2, evs2) \<Rightarrow> (c2, evs @ evs2)))"

text \<open>The value of the counter after each response of a run.\<close>

fun counter_trace :: "nat \<Rightarrow> http_response list \<Rightarrow> nat list" where
  "counter_trace c [] = []"
| "counter_trace c (r # rs) = fst (on_response c r) # counter_trace (fst (on_response c r)) rs"

text \<open>
  An ambiguous client error: a status in 400..499 that does not carry the cross-account
  signature (a 409 whose error summary contains \<^verbatim>\<open>path/not_found\<close>).
\<close>

definition ambiguous_4xx :: "http_response \<Rightarrow> bool" where
  "ambiguous_4xx r = (400 \<le> resp_status r \<and> resp_status r \<le> 499 \<and> \<not> cross_account_409 r)"

text \<open>
  The other wrapper, \<^verbatim>\<open>wrapFetchWithAccountDetection\<close> of the client validation utilities,
  which counts every 409 and every other status of 400 or more. Its events carry no detail.
  No module imports it: the layout installs the detector above.
\<close>

definition wrap_on_response :: "nat \<Rightarrow> http_response \<Rightarrow> nat \<times> window_event list" where
  "wrap_on_response consecutiveErrors r =
     (if resp_status r = 409
      then (consecutiveErrors + 1, [AccountSwitchDetected no_detail])
      else if resp_ok r then (0, [])
      else if resp_status r \<ge> 400
      then (let c = consecutiveErrors + 1 in
            if c \<ge> 2 then (c, [AccountSwitchDetected no_detail]) else (c, []))
      else (consecutiveErrors, []))"

fun wrap_on_responses :: "nat \<Rightarrow> http_response list \<Rightarrow> nat \<times> window_event list" where
  "wrap_on_responses c [] = (c, [])"
| "wrap_on_responses c (r # rs) =
     (case wrap_on_response c r of (c1, evs) \<Rightarrow>
        (case wrap_on_responses c1 rs of (c2, evs2) \<Rightarrow> (c2, evs @ evs2)))"

definition resp_200 :: http_response where
  "resp_200 = \<lparr>resp_status = 200, resp_body = JsonBody None\<rparr>"

definition resp_403 :: http_response where
  "resp_403 = \<lparr>resp_status = 403, resp_body = JsonBody None\<rparr>"

section \<open>String helpers of JavaScript\<close>

text \<open>
  \<^verbatim>\<open>s.split(sep)\<close> for a non-empty separator: the pieces of s between the occurrences of sep,
  found left to right. \<open>split_go\<close> walks s, \<open>k\<close> counting the characters of a matched
  separator still to skip and \<open>acc\<close> holding the current piece in reverse.
\<close>

fun split_go :: "string \<Rightarrow> nat \<Rightarrow> string \<Rightarrow> string \<Rightarrow> string list" where
  "split_go sep k acc [] = [rev acc]"
| "split_go sep (Suc k) acc (c # cs) = split_go sep k acc cs"
| "split_go sep 0 acc (c # cs) =
     (if prefix sep (c # cs) then rev acc # split_go sep (length sep - 1) [] cs
      else split_go sep 0 (c # acc) cs)"

definition js_split :: "string \<Rightarrow> string \<Rightarrow> string list" where
  "js_split s sep = split_go sep 0 [] s"

text \<open>\<^verbatim>\<open>xs[i]\<close>: undefined past the end.\<close>

fun js_index :: "'a list \<Rightarrow> nat \<Rightarrow> 'a option" where
  "js_index [] i = None"
| "js_index (x # xs) 0 = Some x"
| "js_index (x # xs) (Suc i) = js_index xs i"

section \<open>Server auth middleware (server/src/middleware/auth.ts)\<close>

record request_headers =
  authorization :: "string option"
  x_user_id :: "string option"

record server_session =
  ss_accessToken :: string
  ss_refreshToken :: "string option"
  ss_expiresAt :: int

text \<open>A thrown JavaScript value: an \<^verbatim>\<open>Error\<close> with its message, or anything else.\<close>

datatype thrown = ErrorObj string | OtherThrown

text \<open>
  What the middleware reaches outside itself: the provider's identity call, the user
  collection (\<^verbatim>\<open>getUserSession\<close> answers null when the user is missing or the lookup
  fails), the OAuth configuration, the provider's token endpoint called with a refresh
  token, and whether saving the user document throws.
\<close>

record server_env =
  dropbox_account :: "string \<Rightarrow> api_error + account"
  sessions :: "string \<rightharpoonup> server_session"
  oauth_configured :: bool
  dropbox_refresh :: "string \<Rightarrow> thrown + (string \<times> string)"
  db_save :: "thrown option"

record json_reply =
  reply_status :: nat
  reply_error :: string
  reply_message :: "string option"
  reply_shouldReauth :: "bool option"
  reply_reason :: "string option"

text \<open>
  The outcome of one run of the middleware: the response it sent, if any; whether it called
  \<^verbatim>\<open>next()\<close>; what it attached to the request; the \<^verbatim>\<open>X-New-Access-Token\<close> header; the tokens
  it probed for identity, in order; how many times it called \<^verbatim>\<open>refreshAccessTokenIfNeeded\<close>;
  and the user collection afterwards.
\<close>

record mw_result =
  reply :: "json_reply option"
  next_called :: bool
  req_accessToken :: "string option"
  req_currentAccountId :: "string option"
  new_access_token_header :: "string option"
  probed :: "string list"
  refresh_attempts :: nat
  sessions_after :: "string \<rightharpoonup> server_session"

definition reject :: "server_env \<Rightarrow> string list \<Rightarrow> nat \<Rightarrow> json_reply \<Rightarrow> mw_result" where
  "reject env ps n r = \<lparr>reply = Some r, next_called = False, req_accessToken = None,
     req_currentAccountId = None, new_access_token_header = None, probed = ps,
     refresh_attempts = n, sessions_after = sessions env\<rparr>"

definition refreshAccessTokenIfNeeded :: "server_env \<Rightarrow> string \<Rightarrow> thrown + (string \<times> string)" where
  "refreshAccessTokenIfNeeded env userRefreshToken =
     (if \<not> oauth_configured env
      then Inl (ErrorObj ''Missing OAuth configuration (DROPBOX_CLIENT_ID or DROPBOX_CLIENT_SECRET)'')
      else if userRefreshToken = [] then Inl (ErrorObj ''No refresh token available'')
      else dropbox_refresh env userRefreshToken)"

text \<open>\<^verbatim>\<open>userService.updateTokens(userId, accessToken, refreshToken, 14400)\<close> at time \<open>now\<close>.\<close>

definition updateTokens ::
    "server_env \<Rightarrow> int \<Rightarrow> string \<Rightarrow> string \<Rightarrow> string \<Rightarrow> int \<Rightarrow> thrown + (string \<rightharpoonup> server_session)" where
  "updateTokens env now uid accessTok refreshTok expiresIn =
     (case sessions env uid of
        None \<Rightarrow> Inl (ErrorObj (''User '' @ uid @ '' not found''))
      | Some u \<Rightarrow>
          (case db_save env of
             Some e \<Rightarrow> Inl e
           | None \<Rightarrow>
               Inr ((sessions env)(uid \<mapsto>
                 u\<lparr>ss_accessToken := accessTok,
                    ss_refreshToken := (if refreshTok \<noteq> [] then Some refreshTok else ss_refreshToken u),
                    ss_expiresAt := now + expiresIn * 1000\<rparr>))))"

definition refresh_token_error :: "string \<Rightarrow> bool" where
  "refresh_token_error m =
     (js_includes m ''invalid_grant'' \<or> js_includes m ''refresh_token''
      \<or> js_includes m ''expired'' \<or> js_includes m ''invalid_token'')"

definition refresh_failed_reply :: "thrown \<Rightarrow> json_reply" where
  "refresh_failed_reply refreshError =
     (case refreshError of
        ErrorObj m \<Rightarrow>
          (if refresh_token_error m
           then \<lparr>reply_status = 401, reply_error = ''Refresh token expired'',
                  reply_message = Some ''Please log in again'', reply_shouldReauth = Some True,
                  reply_reason = Some ''refresh_token_expired''\<rparr>
           else \<lparr>reply_status = 401, reply_error = ''Authentication failed'',
                  reply_message = Some m, reply_shouldReauth = Some True, reply_reason = None\<rparr>)
      | OtherThrown \<Rightarrow>
          \<lparr>reply_status = 401, reply_error = ''Authentication failed'',
           reply_message = Some ''Token refresh failed'', reply_shouldReauth = Some True,
           reply_reason = None\<rparr>)"

text \<open>\<^verbatim>\<open>authHeader?.split(' ')[1]\<close>\<close>

definition bearer_token :: "string option \<Rightarrow> string option" where
  "bearer_token authHeader =
     (case authHeader of None \<Rightarrow> None | Some h \<Rightarrow> js_index (js_split h '' '') 1)"

definition ensureValidToken :: "server_env \<Rightarrow> int \<Rightarrow> request_headers \<Rightarrow> mw_result" where
  "ensureValidToken env now hdrs =
     (let accessTok = bearer_token (authorization hdrs); uid = x_user_id hdrs in
      if \<not> truthy accessTok
      then reject env [] 0 \<lparr>reply_status = 401, reply_error = ''No access token provided'',
             reply_message = None, reply_shouldReauth = None, reply_reason = None\<rparr>
      else if \<not> truthy uid
      then reject env [] 0 \<lparr>reply_status = 401, reply_error = ''No user ID provided'',
             reply_message = None, reply_shouldReauth = None, reply_reason = None\<rparr>
      else
        (let tok = the accessTok; userId = the uid in
         case dropbox_account env tok of
           Inr currentAccount \<Rightarrow>
             (if account_id currentAccount \<noteq> userId
              then reject env [tok] 0
                     \<lparr>reply_status = 403, reply_error = ''Account mismatch detected'',
                      reply_message = Some ''Token does not belong to the specified user'',
                      reply_shouldReauth = Some True, reply_reason = None\<rparr>
              else \<lparr>reply = None, next_called = True, req_accessToken = Some tok,
                     req_currentAccountId = Some (account_id currentAccount),
                     new_access_token_header = None, probed = [tok],
                     refresh_attempts = 0, sessions_after = sessions env\<rparr>)
         | Inl probeError \<Rightarrow>
             (case Option.bind (sessions env userId) ss_refreshToken of
                None \<Rightarrow>
                  reject env [tok] 0
                    \<lparr>reply_status = 401,
                     reply_error = ''Token expired and no refresh token available'',
                     reply_message = None, reply_shouldReauth = Some True, reply_reason = None\<rparr>
              | Some storedRefreshToken \<Rightarrow>
                  (if storedRefreshToken = []
                   then reject env [tok] 0
                          \<lparr>reply_status = 401,
                           reply_error = ''Token expired and no refresh token available'',
                           reply_message = None, reply_shouldReauth = Some True,
                           reply_reason = None\<rparr>
                   else
                     (case refreshAccessTokenIfNeeded env storedRefreshToken of
                        Inl refreshError \<Rightarrow> reject env [tok] 1 (refresh_failed_reply refreshError)
                      | Inr (newAccessToken, newRefreshToken) \<Rightarrow>
                          (case updateTokens env now userId newAccessToken newRefreshToken 14400 of
                             Inl saveError \<Rightarrow> reject env [tok] 1 (refresh_failed_reply saveError)
                           | Inr db \<Rightarrow>
                               \<lparr>reply = None, next_called = True,
                                req_accessToken = Some newAccessToken,
                                req_currentAccountId = Some userId,
                                new_access_token_header = Some newAccessToken,
                                probed = [tok], refresh_attempts = 1,
                                sessions_after = db\<rparr>))))))"

section \<open>Server validation utilities (server/src/utils/accountValidation.ts)\<close>

text \<open>
  \<^verbatim>\<open>validateAccountMiddleware\<close> is exported next to \<^verbatim>\<open>validateBeforeOperation\<close>, which the
  controllers call after the auth middleware; no route mounts it. It is modelled for
  comparison with \<^verbatim>\<open>ensureValidToken\<close>.
\<close>

text \<open>\<^verbatim>\<open>s.replace(pat, rep)\<close> with a string pattern: the first occurrence only.\<close>

fun js_replace :: "string \<Rightarrow> string \<Rightarrow> string \<Rightarrow> string" where
  "js_replace [] pat rep = (if pat = [] then rep else [])"
| "js_replace (c # cs) pat rep =
     (if prefix pat (c # cs) then rep @ drop (length pat) (c # cs)
      else c # js_replace cs pat rep)"

record server_validation_result =
  sv_isValid :: bool
  sv_accountId :: "string option"
  sv_accountEmail :: "string option"
  sv_accountName :: "string option"
  sv_error :: "string option"
  sv_shouldReauth :: "bool option"
  sv_blockExecution :: "bool option"

definition validateAccountTokenMatchDetailed ::
    "server_env \<Rightarrow> string \<Rightarrow> string \<Rightarrow> server_validation_result" where
  "validateAccountTokenMatchDetailed env accessTok claimedUserId =
     (if accessTok = [] \<or> claimedUserId = []
      then \<lparr>sv_isValid = False, sv_accountId = None, sv_accountEmail = None,
             sv_accountName = None, sv_error = Some ''Missing token or user ID'',
             sv_shouldReauth = Some True, sv_blockExecution = Some True\<rparr>
      else
        (case dropbox_account env accessTok of
           Inl e \<Rightarrow>
             \<lparr>sv_isValid = False, sv_accountId = None, sv_accountEmail = None,
              sv_accountName = None, sv_error = err_message e,
              sv_shouldReauth = Some True, sv_blockExecution = Some True\<rparr>
         | Inr currentAccount \<Rightarrow>
             (if account_id currentAccount \<noteq> claimedUserId
              then \<lparr>sv_isValid = False, sv_accountId = Some (account_id currentAccount),
                     sv_accountEmail = Some (account_email currentAccount),
                     sv_accountName = Some (account_name currentAccount),
                     sv_error = Some ''Account mismatch detected'',
                     sv_shouldReauth = Some True, sv_blockExecution = Some True\<rparr>
              else \<lparr>sv_isValid = True, sv_accountId = Some (account_id currentAccount),
                     sv_accountEmail = Some (account_email currentAccount),
                     sv_accountName = Some (account_name currentAccount),
                     sv_error = None, sv_shouldReauth = None,
                     sv_blockExecution = Some False\<rparr>)))"

record validation_reply =
  vrep_status :: nat
  vrep_error :: string
  vrep_shouldReauth :: "bool option"
  vrep_blockExecution :: "bool option"

text \<open>
  The middleware's outcome: the reply sent, if any; whether \<^verbatim>\<open>next()\<close> was called; and
  \<^verbatim>\<open>req.currentAccountId\<close>. The reply's \<^verbatim>\<open>message\<close> text is left out.
\<close>

definition validateAccountMiddleware ::
    "server_env \<Rightarrow> request_headers \<Rightarrow> validation_reply option \<times> bool \<times> string option" where
  "validateAccountMiddleware env hdrs =
     (if \<not> truthy (authorization hdrs)
      then (Some \<lparr>vrep_status = 401, vrep_error = ''No authorization header'',
                   vrep_shouldReauth = Some True, vrep_blockExecution = Some True\<rparr>, False, None)
      else if \<not> truthy (x_user_id hdrs)
      then (Some \<lparr>vrep_status = 401, vrep_error = ''No user ID header'',
                   vrep_shouldReauth = Some True, vrep_blockExecution = Some True\<rparr>, False, None)
      else
        (let accessTok = js_replace (the (authorization hdrs)) ''Bearer '' [];
             validation = validateAccountTokenMatchDetailed env accessTok (the (x_user_id hdrs))
         in
         if \<not> sv_isValid validation
         then (Some \<lparr>vrep_status = (if sv_shouldReauth validation = Some True then 401 else 403),
                      vrep_error = or_default (sv_error validation) ''Account validation failed'',
                      vrep_shouldReauth = sv_shouldReauth validation,
                      vrep_blockExecution = sv_blockExecution validation\<rparr>, False, None)
         else (None, True, sv_accountId validation)))"

section \<open>Client token refresh (client/src/api/authApi.ts, client/src/hooks/useAuth.ts)\<close>

text \<open>
  What a \<^verbatim>\<open>fetch\<close> of the refresh endpoint does: it rejects (network error), it stays pending
  past the caller's timer, or it resolves with a status and a body.
\<close>

record refresh_json =
  rj_success :: bool
  rj_accessToken :: string
  rj_refreshToken :: "string option"
  rj_expiresIn :: "int option"

datatype reply_body = BodyNotJson | BodyJson refresh_json

datatype fetch_outcome = FetchRejects | FetchHangs | FetchReply nat reply_body

datatype 'a settled = Pending | Settled 'a

record token_pair =
  tp_accessToken :: string
  tp_refreshToken :: "string option"

text \<open>
  \<^verbatim>\<open>authApi.refreshToken()\<close> at time \<open>now\<close>. Every failure, thrown or not, ends in \<^verbatim>\<open>return null\<close>;
  the promise stays pending only while the fetch does.
\<close>

definition refreshToken ::
    "int \<Rightarrow> local_storage \<Rightarrow> fetch_outcome \<Rightarrow> token_pair option settled \<times> local_storage" where
  "refreshToken now ls outcome =
     (if \<not> truthy (ls_refresh_token ls) \<or> \<not> truthy (ls_user_id ls) then (Settled None, ls)
      else
        (case outcome of
           FetchRejects \<Rightarrow> (Settled None, ls)
         | FetchHangs \<Rightarrow> (Pending, ls)
         | FetchReply st body \<Rightarrow>
             (if \<not> (200 \<le> st \<and> st \<le> 299) then (Settled None, ls)
              else
                (case body of
                   BodyNotJson \<Rightarrow> (Settled None, ls)
                 | BodyJson data \<Rightarrow>
                     (if rj_success data
                      then
                        (let expiresIn = (case rj_expiresIn data of
                                            None \<Rightarrow> 14400
                                          | Some n \<Rightarrow> if n = 0 then 14400 else n);
                             expirationTime = now + ((expiresIn - 300) * 1000);
                             ls1 = ls\<lparr>ls_access_token := Some (rj_accessToken data),
                                      ls_token_expires_at := Some expirationTime\<rparr>;
                             ls2 = (if truthy (rj_refreshToken data)
                                    then ls1\<lparr>ls_refresh_token := rj_refreshToken data\<rparr>
                                    else ls1)
                         in (Settled (Some \<lparr>tp_accessToken = rj_accessToken data,
                                            tp_refreshToken = rj_refreshToken data\<rparr>), ls2))
                      else (Settled None, ls))))))"

text \<open>The reachability check after the last failed attempt: \<^verbatim>\<open>fetch('/api/auth/status')\<close>.\<close>

datatype health = HealthOk | HealthNotOk | HealthUnreachable

text \<open>
  The surroundings of \<^verbatim>\<open>initializeFromStorage\<close>: \<^verbatim>\<open>Date.now()\<close> when the function starts
  (index 0) and at the k-th refresh attempt, what the k-th refresh fetch does, the health
  check, the answer of \<^verbatim>\<open>authApi.validateToken\<close>, and whether the plain status fetch resolves.
\<close>

record init_env =
  ie_clock :: "nat \<Rightarrow> int"
  ie_refresh :: "nat \<Rightarrow> fetch_outcome"
  ie_health :: health
  ie_validate :: bool
  ie_reachable :: bool

text \<open>
  How the retry loop is left: with a refresh result; with none (by \<^verbatim>\<open>break\<close> or because the
  attempts are used up); by the early \<^verbatim>\<open>return\<close> that keeps the stored credentials; or by
  \<^verbatim>\<open>JSON.parse\<close> throwing inside it.
\<close>

datatype loop_exit = Refreshed token_pair | NoResult | KeptCredentials user | ParseThrew

text \<open>
  The \<^verbatim>\<open>while (refreshAttempts < maxAttempts && !refreshResult)\<close> loop, entered with the
  attempts made so far. It returns how it was left, \<^verbatim>\<open>localStorage\<close>, the number of calls of
  \<^verbatim>\<open>authApi.refreshToken()\<close> and the waits before a retry, in milliseconds.
\<close>

function refresh_loop ::
    "init_env \<Rightarrow> user_info_item option \<Rightarrow> local_storage \<Rightarrow> nat
       \<Rightarrow> loop_exit \<times> local_storage \<times> nat \<times> int list" where
  "refresh_loop env storedUserInfo ls refreshAttempts =
     (if refreshAttempts < 3
      then
        (let k = refreshAttempts + 1;
             r = refreshToken (ie_clock env k) ls (ie_refresh env k)
         in
         case fst r of
           Settled (Some result) \<Rightarrow> (Refreshed result, snd r, 1, [])
         | Settled None \<Rightarrow>
             (case refresh_loop env storedUserInfo (snd r) k of
                (ex, ls2, n, waits) \<Rightarrow> (ex, ls2, n + 1, waits))
         | Pending \<Rightarrow>
             (if k = 3
              then
                (case ie_health env of
                   HealthOk \<Rightarrow> (NoResult, snd r, 1, [])
                 | HealthNotOk \<Rightarrow> (NoResult, snd r, 1, [])
                 | HealthUnreachable \<Rightarrow>
                     (if user_info_truthy storedUserInfo
                      then (case storedUserInfo of
                              Some (UserJson u) \<Rightarrow> (KeptCredentials u, snd r, 1, [])
                            | _ \<Rightarrow> (ParseThrew, snd r, 1, []))
                      else (NoResult, snd r, 1, [])))
              else
                (case refresh_loop env storedUserInfo (snd r) k of
                   (ex, ls2, n, waits) \<Rightarrow> (ex, ls2, n + 1, (1000 * int k) # waits))))
      else (NoResult, ls, 0, []))"
  by pat_completeness auto
termination
  by (relation "measure (\<lambda>(env, ui, ls, a). 3 - a)") auto

declare refresh_loop.simps [simp del]

record init_trace =
  it_store :: app_store
  it_ls :: local_storage
  it_refresh_calls :: nat
  it_waits :: "int list"

text \<open>
  \<^verbatim>\<open>initializeFromStorage\<close>. A \<^verbatim>\<open>JSON.parse\<close> that throws is a \<^verbatim>\<open>SyntaxError\<close>, which every
  enclosing \<^verbatim>\<open>catch\<close> answers with \<^verbatim>\<open>clearAuth()\<close>. Status texts are given without their
  leading pictograph.
\<close>

definition restore_session :: "string \<Rightarrow> string \<Rightarrow> user_info_item option \<Rightarrow> app_store \<times> local_storage
    \<Rightarrow> app_store \<times> local_storage" where
  "restore_session tok msg storedUserInfo sl =
     (case storedUserInfo of
        Some (UserJson u) \<Rightarrow>
          ((fst sl)\<lparr>accessToken := Some tok, userInfo := Some u, isAuthenticated := True,
                   status := msg\<rparr>, snd sl)
      | _ \<Rightarrow> clearAuth sl)"

definition limited_session :: "string \<Rightarrow> user_info_item option \<Rightarrow> app_store \<times> local_storage
    \<Rightarrow> app_store \<times> local_storage" where
  "limited_session msg storedUserInfo sl =
     (case storedUserInfo of
        Some (UserJson u) \<Rightarrow>
          ((fst sl)\<lparr>userInfo := Some u, isAuthenticated := False, status := msg\<rparr>, snd sl)
      | _ \<Rightarrow> clearAuth sl)"

definition done_checking :: "app_store \<times> local_storage \<Rightarrow> app_store \<times> local_storage" where
  "done_checking sl = ((fst sl)\<lparr>isCheckingAuth := False\<rparr>, snd sl)"

definition initializeFromStorage :: "init_env \<Rightarrow> app_store \<times> local_storage \<Rightarrow> init_trace" where
  "initializeFromStorage env sl =
     (let st = fst sl; ls = snd sl;
          storedToken = ls_access_token ls; storedUserId = ls_user_id ls;
          storedUserInfo = ls_user_info ls
      in
      if \<not> (truthy storedToken \<and> truthy storedUserId)
      then \<lparr>it_store = st\<lparr>isCheckingAuth := False\<rparr>, it_ls = ls, it_refresh_calls = 0, it_waits = []\<rparr>
      else if isTokenExpiredOrExpiring (ie_clock env 0) ls
      then
        (case refresh_loop env storedUserInfo ls 0 of
           (ex, ls1, n, waits) \<Rightarrow>
             (let sl1 =
                (case ex of
                   KeptCredentials u \<Rightarrow>
                     (st\<lparr>userInfo := Some u, isAuthenticated := False,
                         status := ''Connection issues - trying to restore session...'',
                         isCheckingAuth := False\<rparr>, ls1)
                 | ParseThrew \<Rightarrow> done_checking (clearAuth (st, ls1))
                 | NoResult \<Rightarrow> done_checking (clearAuth (st, ls1))
                 | Refreshed result \<Rightarrow>
                     (if tp_accessToken result \<noteq> [] \<and> user_info_truthy storedUserInfo
                      then done_checking (restore_session (tp_accessToken result)
                             ''Authentication restored with refreshed token'' storedUserInfo (st, ls1))
                      else done_checking (clearAuth (st, ls1))))
              in \<lparr>it_store = fst sl1, it_ls = snd sl1, it_refresh_calls = n, it_waits = waits\<rparr>))
      else
        (let sl1 =
           (if ie_validate env \<and> user_info_truthy storedUserInfo
            then restore_session (the storedToken) ''Authentication restored from storage''
                   storedUserInfo (st, ls)
            else if ie_reachable env then clearAuth (st, ls)
            else if user_info_truthy storedUserInfo
            then limited_session ''Network issues - please check connection'' storedUserInfo (st, ls)
            else (st, ls));
             sl2 = done_checking sl1
         in \<lparr>it_store = fst sl2, it_ls = snd sl2, it_refresh_calls = 0, it_waits = []\<rparr>))"

text \<open>
  Reading the outcome of the start-up refresh: the replies of the refresh endpoint that
  report a failure (a status outside 200..299, a body that is not JSON or not a success);
  whether the stored user info parses; how the loop is left after the third timeout; and
  \<^verbatim>\<open>localStorage\<close> with the credentials removed.
\<close>

fun explicit_failure :: "fetch_outcome \<Rightarrow> bool" where
  "explicit_failure FetchRejects = False"
| "explicit_failure FetchHangs = False"
| "explicit_failure (FetchReply st body) =
     (\<not> (200 \<le> st \<and> st \<le> 299) \<or>
      (case body of BodyNotJson \<Rightarrow> True | BodyJson data \<Rightarrow> \<not> rj_success data))"

fun parses :: "user_info_item option \<Rightarrow> bool" where
  "parses (Some (UserJson u)) = True"
| "parses (Some (Unparsable t)) = False"
| "parses None = False"

definition after_last_timeout :: "init_env \<Rightarrow> user_info_item option \<Rightarrow> loop_exit" where
  "after_last_timeout env ui =
     (case ie_health env of
        HealthUnreachable \<Rightarrow>
          (if user_info_truthy ui
           then (case ui of Some (UserJson u) \<Rightarrow> KeptCredentials u | _ \<Rightarrow> ParseThrew)
           else NoResult)
      | _ \<Rightarrow> NoResult)"

definition session_cleared :: "local_storage \<Rightarrow> bool" where
  "session_cleared ls = (ls_access_token ls = None \<and> ls_refresh_token ls = None
     \<and> ls_user_id ls = None \<and> ls_user_info ls = None)"

section \<open>Recovery: the layout's handlers (client/src/Layout.tsx)\<close>

text \<open>
  A handler created by a render reads \<^verbatim>\<open>directFileId\<close>, \<^verbatim>\<open>selectedImage\<close> and \<^verbatim>\<open>userInfo\<close> from
  the store as it was at that render (\<open>rendered\<close>) and the route from \<^verbatim>\<open>location.pathname\<close>;
  its setters write into the current store. Status texts are given without their leading
  pictograph.
\<close>

text \<open>
  \<^verbatim>\<open>directFileId || (pathname.includes('/process/') ? pathname.split('/process/')[1] : null)\<close>
\<close>

definition currentFileId :: "string \<Rightarrow> app_store \<Rightarrow> string option" where
  "currentFileId pathname rendered =
     js_or (directFileId rendered)
       (if js_includes pathname ''/process/'' then js_index (js_split pathname ''/process/'') 1
        else None)"

text \<open>\<^verbatim>\<open>selectedImage && selectedImage.id !== 'unknown'\<close>\<close>

definition hasSelectedImage :: "app_store \<Rightarrow> bool" where
  "hasSelectedImage rendered =
     (case selectedImage rendered of None \<Rightarrow> False | Some img \<Rightarrow> img_id img \<noteq> ''unknown'')"

definition clear_user_data :: "string \<Rightarrow> app_store \<Rightarrow> app_store" where
  "clear_user_data msg st =
     st\<lparr>images := [], selectedImage := None, selectedImageThumbnail := None,
        processingResult := None, status := msg\<rparr>"

definition handleAccountMismatch ::
    "string \<Rightarrow> app_store \<Rightarrow> event_detail \<Rightarrow> app_store \<times> local_storage \<Rightarrow> app_store \<times> local_storage" where
  "handleAccountMismatch pathname rendered detail sl =
     (let st = fst sl; ls = snd sl;
          fileId = currentFileId pathname rendered;
          sl1 =
            (if truthy fileId \<or> hasSelectedImage rendered
             then
               (let fileIdToSave = js_or fileId (map_option img_id (selectedImage rendered)) in
                (st\<lparr>savedIntent := Some \<lparr>si_route = Some pathname, si_fileId = fileIdToSave,
                                           si_action = Some Processing\<rparr>\<rparr>,
                 (if truthy fileIdToSave then ls\<lparr>ls_pending_file_id := fileIdToSave\<rparr> else ls)))
             else
               (st\<lparr>savedIntent := Some \<lparr>si_route = None, si_fileId = None,
                                          si_action = Some Selection\<rparr>\<rparr>, ls));
          st2 = clear_user_data ''Account mismatch detected - previous data cleared'' (fst sl1);
          st3 = st2\<lparr>accountMismatchInfo :=
                      \<lparr>mi_currentAccount =
                         Some (first_nonempty (ev_accountEmail detail) (ev_accountId detail)
                                 ''Unknown Account''),
                       mi_storedAccount =
                         Some (or_default (map_option user_email (userInfo rendered)) ''unknown''),
                       mi_error = Some (or_default (ev_error detail) ''Account mismatch detected'')\<rparr>,
                    showAccountMismatchBanner := True\<rparr>
      in (st3, snd sl1))"

text \<open>
  The Fix button of the mismatch banner, pressed at time \<open>now\<close>. It ends by setting
  \<^verbatim>\<open>window.location.href = '/login'\<close>, which loads the application anew (see \<open>page_load\<close>).
\<close>

definition handleFixAccountMismatch ::
    "int \<Rightarrow> string \<Rightarrow> app_store \<Rightarrow> app_store \<times> local_storage \<Rightarrow> app_store \<times> local_storage" where
  "handleFixAccountMismatch now pathname rendered sl =
     (let st = fst sl; ls = snd sl;
          st1 = st\<lparr>showAccountMismatchBanner := False, showAccountSwitchBanner := False,
                   recentlyReauthorized := True, lastReauthorizationTime := now\<rparr>;
          ls1 = ls\<lparr>ls_recentlyReauthorized := Some ''true'', ls_lastReauthorizationTime := Some now\<rparr>;
          fileId = currentFileId pathname rendered;
          ls2 = (if truthy fileId \<or> hasSelectedImage rendered
                 then ls1\<lparr>ls_pending_file_id :=
                            js_or fileId (map_option img_id (selectedImage rendered))\<rparr>
                 else ls1);
          ls3 = ls2\<lparr>ls_access_token := None, ls_refresh_token := None, ls_user_id := None,
                    ls_user_info := None, ls_token_expires_at := None,
                    ls_direct_file_id_oauth := None, ls_selected_image_oauth := None\<rparr>
      in (clear_user_data [] st1, ls3))"

text \<open>
  A full page navigation: the store is created again from its initial state (it is kept in
  memory only); \<^verbatim>\<open>localStorage\<close> stays.
\<close>

definition page_load :: "app_store \<times> local_storage \<Rightarrow> app_store \<times> local_storage" where
  "page_load sl = (initial_store, snd sl)"

section \<open>Re-authentication (client/src/hooks/useAuth.ts)\<close>

text \<open>
  \<^verbatim>\<open>handleLogin\<close>, as far as it touches the store and \<^verbatim>\<open>localStorage\<close>; it ends by leaving the
  application for the provider's authorization page.
\<close>

definition handleLogin :: "app_store \<times> local_storage \<Rightarrow> app_store \<times> local_storage" where
  "handleLogin sl =
     (let st = (fst sl)\<lparr>isLoggingIn := True\<rparr>; ls = snd sl in
      (st\<lparr>loginProgress := ''Redirecting to Dropbox...''\<rparr>,
       (if truthy (directFileId st) then ls\<lparr>ls_direct_file_id_oauth := directFileId st\<rparr> else ls)))"

record exchange_result =
  ex_user :: user
  ex_accessToken :: string
  ex_refreshToken :: "string option"

text \<open>
  \<^verbatim>\<open>handleOAuthCallback(code, state)\<close> at time \<open>now\<close>. \<open>pkceParams\<close> is what \<^verbatim>\<open>retrievePKCEParams()\<close>
  returns (code verifier and state), \<open>exchange\<close> what \<^verbatim>\<open>authApi.exchangeToken\<close> does. The result
  is the store, \<^verbatim>\<open>localStorage\<close> and the route passed to \<^verbatim>\<open>navigate\<close>.
\<close>

definition handleOAuthCallback ::
    "int \<Rightarrow> string \<Rightarrow> (string \<times> string) option \<Rightarrow> thrown + exchange_result
       \<Rightarrow> app_store \<times> local_storage \<Rightarrow> app_store \<times> local_storage \<times> string" where
  "handleOAuthCallback now state pkceParams exchange sl =
     (let st = fst sl; ls = snd sl;
          failed = (\<lambda>msg.
            (case clearAuth (st\<lparr>loginProgress := ''Authentication failed'',
                               status := ''Authentication failed: '' @ msg\<rparr>, ls) of
               (st1, ls1) \<Rightarrow> (st1\<lparr>isCheckingAuth := False, isLoggingIn := False\<rparr>, ls1, ''/login'')))
      in
      case pkceParams of
        None \<Rightarrow> failed ''PKCE parameters not found''
      | Some (codeVerifier, storedState) \<Rightarrow>
          (if state \<noteq> storedState then failed ''Invalid state parameter''
           else
             (case exchange of
                Inl (ErrorObj msg) \<Rightarrow> failed msg
              | Inl OtherThrown \<Rightarrow> failed ''Unknown error''
              | Inr r \<Rightarrow>
                  (let ls1 = storeTokenWithExpiration now (ex_accessToken r) 14400 ls;
                       ls2 = ls1\<lparr>ls_user_id := Some (userId (ex_user r)),
                                 ls_user_info := Some (UserJson (ex_user r))\<rparr>;
                       ls3 = (if truthy (ex_refreshToken r)
                              then ls2\<lparr>ls_refresh_token := ex_refreshToken r\<rparr> else ls2);
                       st1 = st\<lparr>accessToken := Some (ex_accessToken r),
                                userInfo := Some (ex_user r), isAuthenticated := True,
                                status := ''Authentication successful'',
                                recentlyReauthorized := True, lastReauthorizationTime := now\<rparr>;
                       ls4 = ls3\<lparr>ls_recentlyReauthorized := Some ''true'',
                                 ls_lastReauthorizationTime := Some now\<rparr>;
                       pendingFileId = ls_pending_file_id ls4;
                       oauthDirectFileId = ls_direct_file_id_oauth ls4
                   in
                   if truthy pendingFileId
                   then (st1\<lparr>directFileId := pendingFileId,
                              loginProgress := ''Loading your selected image...'',
                              isCheckingAuth := False, isLoggingIn := False\<rparr>,
                         ls4\<lparr>ls_pending_file_id := None\<rparr>,
                         ''/process/'' @ the pendingFileId)
                   else if truthy oauthDirectFileId
                   then (st1\<lparr>directFileId := oauthDirectFileId,
                              loginProgress := ''Processing your selected image...'',
                              isCheckingAuth := False, isLoggingIn := False\<rparr>,
                         ls4\<lparr>ls_direct_file_id_oauth := None\<rparr>,
                         ''/process/'' @ the oauthDirectFileId)
                   else (st1\<lparr>loginProgress := ''Redirecting to image selection...'',
                              isCheckingAuth := False, isLoggingIn := False\<rparr>,
                         ls4, ''/select'')))))"

section \<open>Smart redirect (client/src/components/SmartRedirect.tsx)\<close>

text \<open>
  The component's effect: the store afterwards and the route passed to \<^verbatim>\<open>navigate\<close>, if any.
\<close>

definition SmartRedirect :: "app_store \<times> local_storage \<Rightarrow> app_store \<times> string option" where
  "SmartRedirect sl =
     (let st = fst sl; ls = snd sl;
          standard =
            (if hasSelectedImage st \<or> truthy (directFileId st)
             then (st\<lparr>currentStep := StepProcessing\<rparr>, Some ''/process'')
             else (st\<lparr>currentStep := StepSelection\<rparr>, Some ''/select''))
      in
      if \<not> isAuthenticated st then (st, None)
      else if truthy (ls_pending_file_id ls) \<or> truthy (ls_direct_file_id_oauth ls) then (st, None)
      else
        (case savedIntent st of
           None \<Rightarrow> standard
         | Some intent \<Rightarrow>
             (if \<not> recentlyReauthorized st then standard
              else if si_action intent = Some Processing \<and> truthy (si_fileId intent)
              then (st\<lparr>directFileId := si_fileId intent, currentStep := StepProcessing,
                       savedIntent := None\<rparr>,
                    Some (case si_route intent of
                            None \<Rightarrow> ''/process/'' @ the (si_fileId intent)
                          | Some route \<Rightarrow>
                              if js_includes route ''/process/'' then route
                              else ''/process/'' @ the (si_fileId intent)))
              else if si_action intent = Some Selection
              then (st\<lparr>currentStep := StepSelection, savedIntent := None\<rparr>, Some ''/select'')
              else standard)))"

section \<open>The recovery round trip\<close>

text \<open>
  From a mismatch event to the end of a successful re-authentication: the event handler
  runs; the layout renders again and the user presses Fix; the browser loads the login page;
  the user starts the login, which leaves for the provider and comes back to the callback
  route, a second page load; the callback exchanges the code. The result is the final store,
  \<^verbatim>\<open>localStorage\<close> and the route navigated to.
\<close>

definition recovery_round_trip ::
    "string \<Rightarrow> event_detail \<Rightarrow> int \<Rightarrow> int \<Rightarrow> string \<Rightarrow> (string \<times> string) option
       \<Rightarrow> thrown + exchange_result \<Rightarrow> app_store \<times> local_storage
       \<Rightarrow> app_store \<times> local_storage \<times> string" where
  "recovery_round_trip pathname detail tFix tBack state pkceParams exchange sl0 =
     (let sl1 = handleAccountMismatch pathname (fst sl0) detail sl0;
          sl2 = handleFixAccountMismatch tFix pathname (fst sl1) sl1;
          sl3 = page_load sl2;
          sl4 = page_load (handleLogin sl3)
      in handleOAuthCallback tBack state pkceParams exchange sl4)"

section \<open>Sample inputs\<close>

definition user_A :: user where
  "user_A = \<lparr>userId = ''dbid:A'', user_email = ''a@example.com'', user_name = ''Ann''\<rparr>"

definition acct_A :: account where
  "acct_A = \<lparr>account_id = ''dbid:A'', account_email = ''a@example.com'', account_name = ''Ann''\<rparr>"

definition ls_A :: local_storage where
  "ls_A = empty_storage\<lparr>ls_access_token := Some ''tokA'', ls_user_id := Some ''dbid:A'',
     ls_user_info := Some (UserJson user_A)\<rparr>"

definition net_down :: api_error where
  "net_down = \<lparr>err_network = True, err_status = None, err_summary = None,
     err_message = Some ''Failed to fetch''\<rparr>"

definition prov_down :: provider where
  "prov_down = \<lparr>usersGetCurrentAccount = (\<lambda>t. Inl net_down),
     filesListFolder = (\<lambda>t. Inl net_down), usersGetSpaceUsage = (\<lambda>t. Inl net_down)\<rparr>"

definition prov_list_fails :: provider where
  "prov_list_fails = \<lparr>usersGetCurrentAccount = (\<lambda>t. Inr acct_A),
     filesListFolder = (\<lambda>t. Inl net_down), usersGetSpaceUsage = (\<lambda>t. Inr 0)\<rparr>"

definition prov_A :: provider where
  "prov_A = \<lparr>usersGetCurrentAccount = (\<lambda>t. Inr acct_A),
     filesListFolder = (\<lambda>t. Inr 1), usersGetSpaceUsage = (\<lambda>t. Inr 0)\<rparr>"

definition store_A :: app_store where
  "store_A = initial_store\<lparr>isAuthenticated := True, userInfo := Some user_A,
     accessToken := Some ''tokA'', isCheckingAuth := False,
     recentlyReauthorized := True, lastReauthorizationTime := 1000\<rparr>"

definition expired_token :: api_error where
  "expired_token = \<lparr>err_network = False, err_status = Some 401,
     err_summary = Some ''expired_access_token/'', err_message = Some ''Response failed with a 401 code''\<rparr>"

text \<open>
  A server whose provider knows token \<^verbatim>\<open>tokA\<close> as account A and rejects every other token,
  holds a refresh token for user B, and whose token endpoint answers that refresh token.
\<close>

definition env_sample :: server_env where
  "env_sample = \<lparr>
     dropbox_account = (\<lambda>t. if t = ''tokA'' then Inr acct_A else Inl expired_token),
     sessions = [''dbid:B'' \<mapsto> \<lparr>ss_accessToken = ''oldB'', ss_refreshToken = Some ''refreshB'',
                                 ss_expiresAt = 0\<rparr>],
     oauth_configured = True,
     dropbox_refresh = (\<lambda>rt. if rt = ''refreshB'' then Inr (''newTok'', ''refreshB'')
                             else Inl (ErrorObj ''invalid_grant'')),
     db_save = None\<rparr>"

definition hdrs_spoof :: request_headers where
  "hdrs_spoof = \<lparr>authorization = Some ''Bearer tokA'', x_user_id = Some ''dbid:B''\<rparr>"

definition hdrs_stale :: request_headers where
  "hdrs_stale = \<lparr>authorization = Some ''Bearer stale'', x_user_id = Some ''dbid:B''\<rparr>"

text \<open>
  A client whose stored token is already inside the expiry margin, with a refresh token, and
  three kinds of surroundings: every refresh fetch hangs and the server cannot be reached;
  every refresh fetch hangs but the health check answers; every refresh fetch is answered
  401 (the refresh endpoint's reply when it takes the refresh token for expired).
\<close>

definition ls_expiring :: local_storage where
  "ls_expiring = ls_A\<lparr>ls_refresh_token := Some ''refreshA'', ls_token_expires_at := Some 100000\<rparr>"

definition env_timeouts :: init_env where
  "env_timeouts = \<lparr>ie_clock = (\<lambda>k. 0), ie_refresh = (\<lambda>k. FetchHangs),
     ie_health = HealthUnreachable, ie_validate = False, ie_reachable = False\<rparr>"

definition env_timeouts_reachable :: init_env where
  "env_timeouts_reachable = env_timeouts\<lparr>ie_health := HealthOk\<rparr>"

definition env_invalid_grant :: init_env where
  "env_invalid_grant = env_timeouts\<lparr>ie_refresh := (\<lambda>k. FetchReply 401
       (BodyJson \<lparr>rj_success = False, rj_accessToken = [], rj_refreshToken = None,
          rj_expiresIn = None\<rparr>)),
     ie_health := HealthOk, ie_reachable := True\<rparr>"

text \<open>
  A server whose token endpoint times out, and one whose token endpoint rejects the refresh
  token: the provider's SDK then throws an \<^verbatim>\<open>Error\<close> that reads
  \<^verbatim>\<open>Response failed with a 400 code\<close>.
\<close>

definition env_refresh_timeout :: server_env where
  "env_refresh_timeout = env_sample\<lparr>dropbox_refresh := (\<lambda>rt. Inl (ErrorObj ''network timeout at: https://api.dropbox.com/oauth2/token''))\<rparr>"

definition env_refresh_rejected :: server_env where
  "env_refresh_rejected = env_sample\<lparr>dropbox_refresh := (\<lambda>rt. Inl (ErrorObj ''Response failed with a 400 code''))\<rparr>"

text \<open>
  A user of account A looking at file \<^verbatim>\<open>id:F1\<close> on its processing route, and the same user with
  an image picked from the gallery on the plain processing route.
\<close>

definition image_F :: image_file where
  "image_F = \<lparr>img_id = ''id:F1'', img_name = ''photo.png''\<rparr>"

definition store_on_file :: app_store where
  "store_on_file = store_A\<lparr>directFileId := Some ''id:F1'', selectedImage := Some image_F,
     currentStep := StepProcessing\<rparr>"

definition store_picked :: app_store where
  "store_picked = store_A\<lparr>selectedImage := Some image_F, currentStep := StepProcessing\<rparr>"

definition mismatch_detail :: event_detail where
  "mismatch_detail = no_detail\<lparr>ev_accountEmail := Some ''b@example.com'',
     ev_accountId := Some ''dbid:B'', ev_error := Some ''Account mismatch detected'',
     ev_source := Some ''axios-interceptor''\<rparr>"

definition exchange_B :: exchange_result where
  "exchange_B = \<lparr>ex_user = \<lparr>userId = ''dbid:B'', user_email = ''b@example.com'', user_name = ''Bob''\<rparr>,
     ex_accessToken = ''tokB'', ex_refreshToken = Some ''refreshB''\<rparr>"

section \<open>Token expiry: results\<close>

lemma isTokenExpiredOrExpiring_after_store:
  "isTokenExpiredOrExpiring now (storeTokenWithExpiration t0 tok expiresIn ls)
     \<longleftrightarrow> now \<ge> (t0 + expiresIn * 1000) - 10 * 60 * 1000"
  by (simp add: isTokenExpiredOrExpiring_def storeTokenWithExpiration_def Let_def) arith

text \<open>
  C10. The claim: a token stored at time t0 with lifetime expiresIn seconds is reported as
  expiring exactly when now is at least (t0 + expiresIn seconds) - 5 minutes. The code stores
  the expiry already reduced by 300 seconds and then compares it with now + 5 minutes, so the
  margins add up. A token of 14400 seconds stored at time 0 truly expires at 14400000 ms; at
  now = 13800000 ms, ten minutes before that and outside the 5-minute margin, the check
  already answers true.
\<close>

theorem C10_expiring_ten_minutes_early:
  "isTokenExpiredOrExpiring 13800000 (storeTokenWithExpiration 0 ''tok'' 14400 empty_storage) = True
   \<and> \<not> ((13800000::int) \<ge> (0 + 14400 * 1000) - 5 * 60 * 1000)"
  by (simp add: isTokenExpiredOrExpiring_def storeTokenWithExpiration_def empty_storage_def Let_def)

section \<open>Client validators: results\<close>

lemma validateCurrentAccount_valid_creds:
  assumes "isValid (validateCurrentAccount ls prov)"
  shows "truthy (ls_access_token ls) \<and> truthy (ls_user_id ls)"
  using assms
  by (auto simp: validateCurrentAccount_def blank_result_def split: if_splits)

text \<open>
  C4. Whenever the identity check of \<^verbatim>\<open>validateSessionConsistency\<close> passes and a functional
  probe fails (the folder listing, or the space usage query that follows a successful
  listing), whatever the error, the verdict is invalid and flagged as a session mismatch.
\<close>

theorem C4_identity_pass_functional_fail:
  assumes "isValid (validateCurrentAccount ls prov)"
    and "ls_access_token ls = Some tok"
    and "isl (filesListFolder prov tok) \<or> isl (usersGetSpaceUsage prov tok)"
  shows "\<not> isValid (validateSessionConsistency ls prov)
         \<and> sessionMismatch (validateSessionConsistency ls prov) = Some True"
proof -
  from assms(1) have creds: "truthy (ls_access_token ls)" "truthy (ls_user_id ls)"
    using validateCurrentAccount_valid_creds by blast+
  show ?thesis
    using assms creds
    by (auto simp: validateSessionConsistency_def probe_failed_def blank_result_def Let_def isl_def
             split: sum.splits)
qed

lemma sample_identity_passes: "isValid (validateCurrentAccount ls_A prov_list_fails)"
  by (simp add: validateCurrentAccount_def ls_A_def prov_list_fails_def acct_A_def
        empty_storage_def truthy_def blank_result_def)

theorem C4_identity_pass_functional_fail_witness:
  "isValid (validateCurrentAccount ls_A prov_list_fails)
   \<and> isl (filesListFolder prov_list_fails ''tokA'')
   \<and> \<not> isValid (validateSessionConsistency ls_A prov_list_fails)
   \<and> sessionMismatch (validateSessionConsistency ls_A prov_list_fails) = Some True"
proof -
  have tok: "ls_access_token ls_A = Some ''tokA''"
    by (simp add: ls_A_def empty_storage_def)
  have fails: "isl (filesListFolder prov_list_fails ''tokA'')"
    by (simp add: prov_list_fails_def)
  from C4_identity_pass_functional_fail [OF sample_identity_passes tok disjI1 [OF fails]]
  show ?thesis using sample_identity_passes fails by simp
qed

text \<open>
  C3. With re-authentication marked and a recorded re-authorization time, a call of
  \<^verbatim>\<open>validateBeforeOperation('USER_OPERATION')\<close> made less than 5 minutes after that time
  returns true, makes no provider call and leaves the store as it was. From 5 minutes on,
  a call made by a session that holds an access token and user info makes exactly one
  provider call: the identity probe with that token.
\<close>

theorem C3_grace_period:
  assumes "recentlyReauthorized st" and "lastReauthorizationTime st \<noteq> 0"
  shows "(now - lastReauthorizationTime st < 5 * 60 * 1000 \<longrightarrow>
            validateBeforeOperation USER_OPERATION now st prov = (True, [], st))
         \<and> (now - lastReauthorizationTime st \<ge> 5 * 60 * 1000 \<and> accessToken st = Some tok
              \<and> tok \<noteq> [] \<and> userInfo st \<noteq> None \<longrightarrow>
            fst (snd (validateBeforeOperation USER_OPERATION now st prov))
              = [UsersGetCurrentAccount tok])"
  using assms
  by (auto simp: validateBeforeOperation_def hook_validateCurrentAccount_def GRACE_PERIOD_def
        Let_def truthy_def split: sum.splits)

theorem C3_grace_period_witness:
  "validateBeforeOperation USER_OPERATION 300999 store_A prov_A = (True, [], store_A)
   \<and> fst (snd (validateBeforeOperation USER_OPERATION 301000 store_A prov_A))
       = [UsersGetCurrentAccount ''tokA'']"
proof -
  have a: "recentlyReauthorized store_A" "lastReauthorizationTime store_A \<noteq> 0"
    "lastReauthorizationTime store_A = 1000" "accessToken store_A = Some ''tokA''"
    "userInfo store_A \<noteq> None"
    by (simp_all add: store_A_def initial_store_def)
  from C3_grace_period [OF a(1,2), of 300999 prov_A "''tokA''"]
       C3_grace_period [OF a(1,2), of 301000 prov_A "''tokA''"]
  show ?thesis using a by simp
qed

text \<open>
  C5, as the code has it. The validators do not tell an unreachable provider from any other
  probe failure. Whatever error the identity probe throws, a network error or timeout
  included: \<^verbatim>\<open>triggerImmediateAccountValidation\<close> dispatches one \<^verbatim>\<open>accountMismatch\<close> event
  (source \<^verbatim>\<open>immediate-validation-error\<close>) and returns false;
  \<^verbatim>\<open>triggerComprehensiveAccountCheck\<close> returns false and dispatches one \<^verbatim>\<open>accountMismatch\<close>
  event marked confirmed; \<^verbatim>\<open>validateCurrentAccount\<close> returns an invalid verdict asking for
  re-authentication. None of them changes the stored credentials.
\<close>

theorem C5_probe_failure_raises_mismatch:
  assumes "ls_access_token ls = Some tok" and "tok \<noteq> []" and "truthy (ls_user_id ls)"
    and "usersGetCurrentAccount prov tok = Inl e"
  shows "triggerImmediateAccountValidation True now ls prov =
           (Some False,
            [AccountMismatch (no_detail\<lparr>ev_accountEmail := Some ''Validation failed'',
               ev_accountId := Some ''unknown'',
               ev_error := Some (or_default (err_message e) ''Immediate validation failed''),
               ev_source := Some ''immediate-validation-error''\<rparr>)],
            ls)
         \<and> \<not> isValid (validateCurrentAccount ls prov)
         \<and> shouldReauth (validateCurrentAccount ls prov) = Some True
         \<and> fst (triggerComprehensiveAccountCheck ls prov) = False
         \<and> map is_mismatch_signal (snd (triggerComprehensiveAccountCheck ls prov)) = [True]
         \<and> map confirmed_flag (snd (triggerComprehensiveAccountCheck ls prov)) = [Some True]"
  using assms
  by (auto simp: triggerImmediateAccountValidation_def validateCurrentAccount_def
        triggerComprehensiveAccountCheck_def performComprehensiveAccountCheck_def
        blank_result_def Let_def truthy_def no_detail_def
        split: sum.splits option.splits user_info_item.splits)

theorem C5_probe_failure_raises_mismatch_witness:
  "fst (triggerImmediateAccountValidation True 0 ls_A prov_down) = Some False
   \<and> snd (snd (triggerImmediateAccountValidation True 0 ls_A prov_down)) = ls_A
   \<and> \<not> isValid (validateCurrentAccount ls_A prov_down)
   \<and> map confirmed_flag (snd (triggerComprehensiveAccountCheck ls_A prov_down)) = [Some True]"
proof -
  have a: "ls_access_token ls_A = Some ''tokA''" "''tokA'' \<noteq> []" "truthy (ls_user_id ls_A)"
    "usersGetCurrentAccount prov_down ''tokA'' = Inl net_down"
    by (simp_all add: ls_A_def empty_storage_def truthy_def prov_down_def)
  from C5_probe_failure_raises_mismatch [OF a, of 0]
  show ?thesis by simp
qed

text \<open>
  C5, as the claim has it, fails: with the provider unreachable (the probe throws a network
  error), the immediate validation raises the mismatch signal.
\<close>

theorem C5_unreachable_counterexample:
  "err_network net_down
   \<and> usersGetCurrentAccount prov_down ''tokA'' = Inl net_down
   \<and> map is_mismatch_signal (fst (snd (triggerImmediateAccountValidation True 0 ls_A prov_down)))
       = [True]"
  by (simp add: triggerImmediateAccountValidation_def prov_down_def net_down_def ls_A_def
        empty_storage_def truthy_def Let_def)

section \<open>Fetch interception: results\<close>

lemma on_response_counter_bound: "c < 2 \<Longrightarrow> fst (on_response c r) < 2"
  by (simp add: on_response_def Let_def)

lemma ambiguous_4xx_ignored:
  assumes "ambiguous_4xx r"
  shows "on_response c r = (c, [])"
  using assms by (simp add: on_response_def ambiguous_4xx_def resp_ok_def)

text \<open>
  C9. Any successful response sets the counter of the installed detector to zero, whatever
  it held, and emits nothing. Consequently, from any value the counter can hold (0 or 1),
  two ambiguous 4xx responses, a successful response and one more ambiguous 4xx response
  emit no event, and the counter stays below the threshold of 2 after each of them: it is
  unchanged by the two errors, zero after the success and zero at the end.
\<close>

theorem C9_reset_on_success_no_signal:
  "(resp_ok r \<longrightarrow> on_response c r = (0, []))
   \<and> (c < 2 \<and> ambiguous_4xx xa \<and> ambiguous_4xx xb \<and> resp_ok r \<and> ambiguous_4xx xc \<longrightarrow>
        snd (on_responses c [xa, xb, r, xc]) = []
        \<and> counter_trace c [xa, xb, r, xc] = [c, c, 0, 0]
        \<and> list_all (\<lambda>n. n < 2) (counter_trace c [xa, xb, r, xc]))"
proof (intro conjI impI)
  show "on_response c r = (0, [])" if "resp_ok r"
    using that by (simp add: on_response_def resp_ok_def)
next
  assume h: "c < 2 \<and> ambiguous_4xx xa \<and> ambiguous_4xx xb \<and> resp_ok r \<and> ambiguous_4xx xc"
  have ok: "on_response c r = (0, [])"
    using h by (simp add: on_response_def resp_ok_def)
  show "snd (on_responses c [xa, xb, r, xc]) = []"
    using h ok by (simp add: ambiguous_4xx_ignored)
  show tr: "counter_trace c [xa, xb, r, xc] = [c, c, 0, 0]"
    using h ok by (simp add: ambiguous_4xx_ignored)
  show "list_all (\<lambda>n. n < 2) (counter_trace c [xa, xb, r, xc])"
    unfolding tr using h by simp
qed

theorem C9_reset_on_success_no_signal_witness:
  "on_response 1 resp_200 = (0, [])
   \<and> snd (on_responses 1 [resp_403, resp_403, resp_200, resp_403]) = []
   \<and> counter_trace 1 [resp_403, resp_403, resp_200, resp_403] = [1, 1, 0, 0]"
proof -
  have a: "resp_ok resp_200" "ambiguous_4xx resp_403" "(1::nat) < 2"
    by (simp_all add: resp_ok_def resp_200_def ambiguous_4xx_def cross_account_409_def
          resp_403_def)
  from C9_reset_on_success_no_signal [where r = resp_200 and c = 1 and xa = resp_403
         and xb = resp_403 and xc = resp_403]
  show ?thesis using a by blast
qed

text \<open>
  What the counter does count: 409 responses with the cross-account signature. One of them,
  a success and one more emit nothing and leave the counter at 1; two in a row reach the
  threshold, emit one event carrying the count 2, and put the counter back to zero.
\<close>

lemma cross_account_errors_counted:
  assumes "cross_account_409 ra" and "cross_account_409 rb"
  shows "(resp_ok r \<longrightarrow> on_responses 0 [ra, r, rb] = (1, []))
         \<and> on_responses 0 [ra, rb]
             = (0, [AccountSwitchDetected (no_detail\<lparr>ev_source := Some ''fetch-interceptor'',
                      ev_errorCount := Some 2,
                      ev_error := Some ''Multiple cross-account 409 errors detected''\<rparr>)])"
  using assms by (auto simp: on_response_def resp_ok_def Let_def cross_account_409_def)

text \<open>
  For comparison: the wrapper that no module imports counts every client error, and on
  403, 403, 200, 403 it emits at the second response.
\<close>

lemma wrapper_counts_client_errors:
  "wrap_on_responses 0 [resp_403, resp_403, resp_200, resp_403]
     = (1, [AccountSwitchDetected no_detail])"
  by (simp add: wrap_on_response_def resp_200_def resp_403_def resp_ok_def Let_def)

section \<open>Server middleware: results\<close>

text \<open>
  C1. A request carries a bearer token and a non-empty claimed account id B in
  \<^verbatim>\<open>X-User-ID\<close>; the provider says the token belongs to an account whose id is not B. Then
  \<^verbatim>\<open>ensureValidToken\<close>, the middleware mounted on every protected route, answers 403 with
  \<^verbatim>\<open>shouldReauth: true\<close> and does not call \<^verbatim>\<open>next()\<close>.
\<close>

theorem C1_spoofed_claim_rejected:
  assumes "bearer_token (authorization hdrs) = Some tok" and "tok \<noteq> []"
    and "x_user_id hdrs = Some B" and "B \<noteq> []"
    and "dropbox_account env tok = Inr acct" and "account_id acct \<noteq> B"
  shows "map_option reply_status (reply (ensureValidToken env now hdrs)) = Some 403
         \<and> Option.bind (reply (ensureValidToken env now hdrs)) reply_shouldReauth = Some True
         \<and> \<not> next_called (ensureValidToken env now hdrs)"
  using assms
  by (simp add: ensureValidToken_def Let_def truthy_def reject_def)

lemma bearer_token_tokA: "bearer_token (Some ''Bearer tokA'') = Some ''tokA''"
  by (simp add: bearer_token_def js_split_def)

lemma bearer_token_stale: "bearer_token (Some ''Bearer stale'') = Some ''stale''"
  by (simp add: bearer_token_def js_split_def)

theorem C1_spoofed_claim_rejected_witness:
  "map_option reply_status (reply (ensureValidToken env_sample 0 hdrs_spoof)) = Some 403
   \<and> Option.bind (reply (ensureValidToken env_sample 0 hdrs_spoof)) reply_shouldReauth = Some True
   \<and> \<not> next_called (ensureValidToken env_sample 0 hdrs_spoof)"
proof -
  have a: "bearer_token (authorization hdrs_spoof) = Some ''tokA''" "''tokA'' \<noteq> []"
    "x_user_id hdrs_spoof = Some ''dbid:B''" "''dbid:B'' \<noteq> []"
    "dropbox_account env_sample ''tokA'' = Inr acct_A" "account_id acct_A \<noteq> ''dbid:B''"
    by (simp_all add: hdrs_spoof_def bearer_token_tokA env_sample_def acct_A_def)
  from C1_spoofed_claim_rejected [OF a] show ?thesis .
qed

text \<open>
  For comparison: \<^verbatim>\<open>validateAccountMiddleware\<close>, which no route mounts, blocks the same
  request as well, but with status 401, since its verdict for a mismatch asks for
  re-authentication.
\<close>

lemma validateAccountMiddleware_mismatch:
  assumes "authorization hdrs = Some h" and "js_replace h ''Bearer '' [] = tok" and "tok \<noteq> []"
    and "x_user_id hdrs = Some B" and "B \<noteq> []"
    and "dropbox_account env tok = Inr acct" and "account_id acct \<noteq> B"
  shows "map_option vrep_status (fst (validateAccountMiddleware env hdrs)) = Some 401
         \<and> Option.bind (fst (validateAccountMiddleware env hdrs)) vrep_shouldReauth = Some True
         \<and> \<not> fst (snd (validateAccountMiddleware env hdrs))"
proof -
  have "h \<noteq> []" using assms(2,3) by (cases h) auto
  then show ?thesis
    using assms
    by (simp add: validateAccountMiddleware_def validateAccountTokenMatchDetailed_def Let_def
          truthy_def)
qed

text \<open>
  C2. The probe of the presented token fails, the user collection holds a refresh token for
  the claimed user id B, the refresh with it succeeds and the new tokens are saved. Then
  the middleware calls \<^verbatim>\<open>next()\<close> with \<^verbatim>\<open>req.currentAccountId\<close> set to B and the refreshed
  token attached and echoed in \<^verbatim>\<open>X-New-Access-Token\<close>; the only identity probe of the run is the
  one of the presented token, so the refreshed token is never compared with B.
\<close>

theorem C2_refresh_path_trusts_claim:
  assumes "bearer_token (authorization hdrs) = Some tok" and "tok \<noteq> []"
    and "x_user_id hdrs = Some B" and "B \<noteq> []"
    and "dropbox_account env tok = Inl e"
    and "sessions env B = Some sess" and "ss_refreshToken sess = Some rt"
    and "refreshAccessTokenIfNeeded env rt = Inr (newTok, newRt)"
    and "db_save env = None"
  shows "next_called (ensureValidToken env now hdrs)
         \<and> reply (ensureValidToken env now hdrs) = None
         \<and> req_currentAccountId (ensureValidToken env now hdrs) = Some B
         \<and> req_accessToken (ensureValidToken env now hdrs) = Some newTok
         \<and> new_access_token_header (ensureValidToken env now hdrs) = Some newTok
         \<and> probed (ensureValidToken env now hdrs) = [tok]"
  using assms
  by (auto simp: ensureValidToken_def Let_def truthy_def reject_def updateTokens_def
        refreshAccessTokenIfNeeded_def split: if_splits)

theorem C2_refresh_path_trusts_claim_witness:
  "next_called (ensureValidToken env_sample 0 hdrs_stale)
   \<and> reply (ensureValidToken env_sample 0 hdrs_stale) = None
   \<and> req_currentAccountId (ensureValidToken env_sample 0 hdrs_stale) = Some ''dbid:B''
   \<and> req_accessToken (ensureValidToken env_sample 0 hdrs_stale) = Some ''newTok''
   \<and> new_access_token_header (ensureValidToken env_sample 0 hdrs_stale) = Some ''newTok''
   \<and> probed (ensureValidToken env_sample 0 hdrs_stale) = [''stale'']"
proof -
  have a: "bearer_token (authorization hdrs_stale) = Some ''stale''" "''stale'' \<noteq> []"
    "x_user_id hdrs_stale = Some ''dbid:B''" "''dbid:B'' \<noteq> []"
    "dropbox_account env_sample ''stale'' = Inl expired_token"
    "sessions env_sample ''dbid:B'' = Some \<lparr>ss_accessToken = ''oldB'',
        ss_refreshToken = Some ''refreshB'', ss_expiresAt = 0\<rparr>"
    "ss_refreshToken \<lparr>ss_accessToken = ''oldB'', ss_refreshToken = Some ''refreshB'',
        ss_expiresAt = 0\<rparr> = Some ''refreshB''"
    "refreshAccessTokenIfNeeded env_sample ''refreshB'' = Inr (''newTok'', ''refreshB'')"
    "db_save env_sample = None"
    by (simp_all add: hdrs_stale_def bearer_token_stale env_sample_def
          refreshAccessTokenIfNeeded_def)
  from C2_refresh_path_trusts_claim [OF a] show ?thesis .
qed

section \<open>Token refresh failures: results\<close>

lemma refreshToken_hangs:
  "truthy (ls_refresh_token ls) \<Longrightarrow> truthy (ls_user_id ls) \<Longrightarrow>
   refreshToken now ls FetchHangs = (Pending, ls)"
  by (simp add: refreshToken_def)

lemma refreshToken_null:
  "explicit_failure outcome \<Longrightarrow> refreshToken now ls outcome = (Settled None, ls)"
  by (cases outcome) (auto simp: refreshToken_def split: reply_body.splits)

lemma refresh_loop_used_up: "refresh_loop env ui ls (Suc (Suc (Suc 0))) = (NoResult, ls, 0, [])"
  by (subst refresh_loop.simps) simp

lemma refresh_loop_three_timeouts:
  assumes "truthy (ls_refresh_token ls)" and "truthy (ls_user_id ls)"
    and "\<And>k. ie_refresh env k = FetchHangs"
  shows "refresh_loop env ui ls 0 = (after_last_timeout env ui, ls, 3, [1000, 2000])"
proof -
  have three: "refresh_loop env ui ls (Suc (Suc 0)) = (after_last_timeout env ui, ls, 1, [])"
    using assms
    by (subst refresh_loop.simps)
       (simp add: refreshToken_hangs Let_def after_last_timeout_def
          split: health.splits option.splits user_info_item.splits)
  have two: "refresh_loop env ui ls (Suc 0) = (after_last_timeout env ui, ls, 2, [2000])"
    using assms
    by (subst refresh_loop.simps) (simp add: refreshToken_hangs Let_def three)
  show ?thesis
    using assms
    by (subst refresh_loop.simps) (simp add: refreshToken_hangs Let_def two)
qed

lemma refresh_loop_three_failures:
  assumes "\<And>k. explicit_failure (ie_refresh env k)"
  shows "refresh_loop env ui ls 0 = (NoResult, ls, 3, [])"
proof -
  have three: "refresh_loop env ui ls (Suc (Suc 0)) = (NoResult, ls, 1, [])"
    using assms
    by (subst refresh_loop.simps) (simp add: refreshToken_null Let_def refresh_loop_used_up)
  have two: "refresh_loop env ui ls (Suc 0) = (NoResult, ls, 2, [])"
    using assms
    by (subst refresh_loop.simps) (simp add: refreshToken_null Let_def three)
  show ?thesis
    using assms
    by (subst refresh_loop.simps) (simp add: refreshToken_null Let_def two)
qed

lemma client_three_timeouts:
  assumes "truthy (ls_access_token ls)" and "truthy (ls_user_id ls)"
    and "truthy (ls_refresh_token ls)"
    and "isTokenExpiredOrExpiring (ie_clock env 0) ls"
    and h: "\<And>k. ie_refresh env k = FetchHangs"
  shows "it_refresh_calls (initializeFromStorage env (st, ls)) = 3
         \<and> it_waits (initializeFromStorage env (st, ls)) = [1000, 2000]
         \<and> (ie_health env = HealthUnreachable \<and> ls_user_info ls = Some (UserJson u) \<longrightarrow>
              it_ls (initializeFromStorage env (st, ls)) = ls
              \<and> \<not> isAuthenticated (it_store (initializeFromStorage env (st, ls))))
         \<and> (\<not> (ie_health env = HealthUnreachable \<and> parses (ls_user_info ls)) \<longrightarrow>
              session_cleared (it_ls (initializeFromStorage env (st, ls))))"
proof (intro conjI impI)
  have loop: "refresh_loop env (ls_user_info ls) ls 0
                = (after_last_timeout env (ls_user_info ls), ls, 3, [1000, 2000])"
    using assms by (simp add: refresh_loop_three_timeouts)
  show "it_refresh_calls (initializeFromStorage env (st, ls)) = 3"
    using assms by (simp add: initializeFromStorage_def Let_def loop)
  show "it_waits (initializeFromStorage env (st, ls)) = [1000, 2000]"
    using assms by (simp add: initializeFromStorage_def Let_def loop)
  show "session_cleared (it_ls (initializeFromStorage env (st, ls)))"
    if other: "\<not> (ie_health env = HealthUnreachable \<and> parses (ls_user_info ls))"
  proof -
    have ex: "after_last_timeout env (ls_user_info ls) = NoResult
              \<or> after_last_timeout env (ls_user_info ls) = ParseThrew"
      using other
      by (cases "ie_health env"; cases "ls_user_info ls" rule: parses.cases)
         (simp_all add: after_last_timeout_def user_info_truthy_def)
    then show ?thesis
      using assms
      by (auto simp: initializeFromStorage_def Let_def loop done_checking_def clearAuth_def
            session_cleared_def)
  qed
  assume kept: "ie_health env = HealthUnreachable \<and> ls_user_info ls = Some (UserJson u)"
  have loop_kept:
    "refresh_loop env (ls_user_info ls) ls 0 = (KeptCredentials u, ls, 3, [1000, 2000])"
    using loop kept by (simp add: after_last_timeout_def user_info_truthy_def)
  show "it_ls (initializeFromStorage env (st, ls)) = ls"
    using assms loop_kept by (simp add: initializeFromStorage_def Let_def del: One_nat_def)
  show "\<not> isAuthenticated (it_store (initializeFromStorage env (st, ls)))"
    using assms loop_kept by (simp add: initializeFromStorage_def Let_def del: One_nat_def)
qed

lemma client_three_failures:
  assumes "truthy (ls_access_token ls)" and "truthy (ls_user_id ls)"
    and "isTokenExpiredOrExpiring (ie_clock env 0) ls"
    and h: "\<And>k. explicit_failure (ie_refresh env k)"
  shows "it_refresh_calls (initializeFromStorage env (st, ls)) = 3
         \<and> it_waits (initializeFromStorage env (st, ls)) = []
         \<and> session_cleared (it_ls (initializeFromStorage env (st, ls)))"
proof -
  have loop: "refresh_loop env (ls_user_info ls) ls 0 = (NoResult, ls, 3, [])"
    using h by (simp add: refresh_loop_three_failures)
  show ?thesis
    using assms
    by (simp add: initializeFromStorage_def Let_def loop done_checking_def clearAuth_def
          session_cleared_def)
qed

lemma server_refresh_failure:
  assumes "bearer_token (authorization hdrs) = Some tok" and "tok \<noteq> []"
    and "x_user_id hdrs = Some B" and "B \<noteq> []"
    and "dropbox_account senv tok = Inl e"
    and "sessions senv B = Some sess" and "ss_refreshToken sess = Some rt" and "rt \<noteq> []"
    and "refreshAccessTokenIfNeeded senv rt = Inl err"
  shows "refresh_attempts (ensureValidToken senv now hdrs) = 1
         \<and> \<not> next_called (ensureValidToken senv now hdrs)
         \<and> map_option reply_status (reply (ensureValidToken senv now hdrs)) = Some 401
         \<and> Option.bind (reply (ensureValidToken senv now hdrs)) reply_shouldReauth = Some True
         \<and> (Option.bind (reply (ensureValidToken senv now hdrs)) reply_reason
               = (case err of
                    ErrorObj m \<Rightarrow> if refresh_token_error m then Some ''refresh_token_expired'' else None
                  | OtherThrown \<Rightarrow> None))"
  using assms
  by (cases err)
     (simp_all add: ensureValidToken_def Let_def truthy_def reject_def refresh_failed_reply_def)

lemma sample_expiring:
  "truthy (ls_access_token ls_expiring) \<and> truthy (ls_user_id ls_expiring)
   \<and> truthy (ls_refresh_token ls_expiring)
   \<and> ls_user_info ls_expiring = Some (UserJson user_A)
   \<and> isTokenExpiredOrExpiring 0 ls_expiring"
  by (simp add: ls_expiring_def ls_A_def empty_storage_def truthy_def
        isTokenExpiredOrExpiring_def)

lemma sample_stale_request:
  "bearer_token (authorization hdrs_stale) = Some ''stale'' \<and> ''stale'' \<noteq> []
   \<and> x_user_id hdrs_stale = Some ''dbid:B'' \<and> ''dbid:B'' \<noteq> []"
  by (simp add: hdrs_stale_def bearer_token_stale)

text \<open>
  C8, as the code has it. On the client, at start-up with an expiring token:
  (1) when each refresh attempt runs into the 10 second timeout, \<^verbatim>\<open>authApi.refreshToken()\<close>
  is called 3 times, with waits of 1 and 2 seconds between the attempts; afterwards the
  stored credentials are kept if the health check cannot reach the server either and the
  stored user info parses, and are cleared in every other case;
  (2) when each refresh attempt is answered with an explicit failure (a non-2xx status
  such as the 401 for an expired refresh token, or a body without success),
  \<^verbatim>\<open>authApi.refreshToken()\<close> returns null, is called 3 times without any wait, and the
  credentials are cleared.
  On the server, (3) when the refresh throws, whatever it throws, the middleware has called
  the refresh once, does not call \<^verbatim>\<open>next()\<close>, and answers 401 with \<^verbatim>\<open>shouldReauth: true\<close>; the
  reason \<^verbatim>\<open>refresh_token_expired\<close> is given exactly when the thrown value is an \<^verbatim>\<open>Error\<close> whose
  message mentions invalid_grant, refresh_token, expired or invalid_token.
\<close>

theorem C8_refresh_failure_handling:
  "(truthy (ls_access_token ls) \<and> truthy (ls_user_id ls) \<and> truthy (ls_refresh_token ls)
      \<and> isTokenExpiredOrExpiring (ie_clock env 0) ls \<and> (\<forall>k. ie_refresh env k = FetchHangs) \<longrightarrow>
      it_refresh_calls (initializeFromStorage env (st, ls)) = 3
      \<and> it_waits (initializeFromStorage env (st, ls)) = [1000, 2000]
      \<and> (ie_health env = HealthUnreachable \<and> ls_user_info ls = Some (UserJson u) \<longrightarrow>
           it_ls (initializeFromStorage env (st, ls)) = ls
           \<and> \<not> isAuthenticated (it_store (initializeFromStorage env (st, ls))))
      \<and> (\<not> (ie_health env = HealthUnreachable \<and> parses (ls_user_info ls)) \<longrightarrow>
           session_cleared (it_ls (initializeFromStorage env (st, ls)))))
   \<and> (truthy (ls_access_token ls) \<and> truthy (ls_user_id ls)
      \<and> isTokenExpiredOrExpiring (ie_clock env2 0) ls
      \<and> (\<forall>k. explicit_failure (ie_refresh env2 k)) \<longrightarrow>
      it_refresh_calls (initializeFromStorage env2 (st, ls)) = 3
      \<and> it_waits (initializeFromStorage env2 (st, ls)) = []
      \<and> session_cleared (it_ls (initializeFromStorage env2 (st, ls))))
   \<and> (bearer_token (authorization hdrs) = Some tok \<and> tok \<noteq> []
      \<and> x_user_id hdrs = Some B \<and> B \<noteq> []
      \<and> dropbox_account senv tok = Inl e
      \<and> sessions senv B = Some sess \<and> ss_refreshToken sess = Some rt \<and> rt \<noteq> []
      \<and> refreshAccessTokenIfNeeded senv rt = Inl err \<longrightarrow>
      refresh_attempts (ensureValidToken senv now hdrs) = 1
      \<and> \<not> next_called (ensureValidToken senv now hdrs)
      \<and> map_option reply_status (reply (ensureValidToken senv now hdrs)) = Some 401
      \<and> Option.bind (reply (ensureValidToken senv now hdrs)) reply_shouldReauth = Some True
      \<and> (Option.bind (reply (ensureValidToken senv now hdrs)) reply_reason
            = (case err of
                 ErrorObj m \<Rightarrow> if refresh_token_error m then Some ''refresh_token_expired'' else None
               | OtherThrown \<Rightarrow> None)))"
proof (intro conjI)
  show "truthy (ls_access_token ls) \<and> truthy (ls_user_id ls) \<and> truthy (ls_refresh_token ls)
      \<and> isTokenExpiredOrExpiring (ie_clock env 0) ls \<and> (\<forall>k. ie_refresh env k = FetchHangs) \<longrightarrow>
      it_refresh_calls (initializeFromStorage env (st, ls)) = 3
      \<and> it_waits (initializeFromStorage env (st, ls)) = [1000, 2000]
      \<and> (ie_health env = HealthUnreachable \<and> ls_user_info ls = Some (UserJson u) \<longrightarrow>
           it_ls (initializeFromStorage env (st, ls)) = ls
           \<and> \<not> isAuthenticated (it_store (initializeFromStorage env (st, ls))))
      \<and> (\<not> (ie_health env = HealthUnreachable \<and> parses (ls_user_info ls)) \<longrightarrow>
           session_cleared (it_ls (initializeFromStorage env (st, ls))))"
    using client_three_timeouts [of ls env st u] by blast
  show "truthy (ls_access_token ls) \<and> truthy (ls_user_id ls)
      \<and> isTokenExpiredOrExpiring (ie_clock env2 0) ls
      \<and> (\<forall>k. explicit_failure (ie_refresh env2 k)) \<longrightarrow>
      it_refresh_calls (initializeFromStorage env2 (st, ls)) = 3
      \<and> it_waits (initializeFromStorage env2 (st, ls)) = []
      \<and> session_cleared (it_ls (initializeFromStorage env2 (st, ls)))"
    using client_three_failures [of ls env2 st] by blast
  show "bearer_token (authorization hdrs) = Some tok \<and> tok \<noteq> []
      \<and> x_user_id hdrs = Some B \<and> B \<noteq> []
      \<and> dropbox_account senv tok = Inl e
      \<and> sessions senv B = Some sess \<and> ss_refreshToken sess = Some rt \<and> rt \<noteq> []
      \<and> refreshAccessTokenIfNeeded senv rt = Inl err \<longrightarrow>
      refresh_attempts (ensureValidToken senv now hdrs) = 1
      \<and> \<not> next_called (ensureValidToken senv now hdrs)
      \<and> map_option reply_status (reply (ensureValidToken senv now hdrs)) = Some 401
      \<and> Option.bind (reply (ensureValidToken senv now hdrs)) reply_shouldReauth = Some True
      \<and> (Option.bind (reply (ensureValidToken senv now hdrs)) reply_reason
            = (case err of
                 ErrorObj m \<Rightarrow> if refresh_token_error m then Some ''refresh_token_expired'' else None
               | OtherThrown \<Rightarrow> None))"
    using server_refresh_failure [of hdrs tok B senv e sess rt err now] by blast
qed

theorem C8_refresh_failure_handling_witness:
  "it_refresh_calls (initializeFromStorage env_timeouts (initial_store, ls_expiring)) = 3
   \<and> it_waits (initializeFromStorage env_timeouts (initial_store, ls_expiring)) = [1000, 2000]
   \<and> it_ls (initializeFromStorage env_timeouts (initial_store, ls_expiring)) = ls_expiring
   \<and> it_refresh_calls (initializeFromStorage env_invalid_grant (initial_store, ls_expiring)) = 3
   \<and> it_waits (initializeFromStorage env_invalid_grant (initial_store, ls_expiring)) = []
   \<and> session_cleared (it_ls (initializeFromStorage env_invalid_grant (initial_store, ls_expiring)))
   \<and> refresh_attempts (ensureValidToken env_refresh_rejected 0 hdrs_stale) = 1
   \<and> \<not> next_called (ensureValidToken env_refresh_rejected 0 hdrs_stale)
   \<and> map_option reply_status (reply (ensureValidToken env_refresh_rejected 0 hdrs_stale)) = Some 401
   \<and> Option.bind (reply (ensureValidToken env_refresh_rejected 0 hdrs_stale)) reply_shouldReauth
        = Some True
   \<and> Option.bind (reply (ensureValidToken env_refresh_rejected 0 hdrs_stale)) reply_reason = None"
proof -
  have c: "ie_clock env_timeouts 0 = 0" "\<forall>k. ie_refresh env_timeouts k = FetchHangs"
    "ie_health env_timeouts = HealthUnreachable"
    "ie_clock env_invalid_grant 0 = 0" "\<forall>k. explicit_failure (ie_refresh env_invalid_grant k)"
    by (simp_all add: env_timeouts_def env_invalid_grant_def)
  have s: "dropbox_account env_refresh_rejected ''stale'' = Inl expired_token"
    "sessions env_refresh_rejected ''dbid:B'' = Some \<lparr>ss_accessToken = ''oldB'',
        ss_refreshToken = Some ''refreshB'', ss_expiresAt = 0\<rparr>"
    "refreshAccessTokenIfNeeded env_refresh_rejected ''refreshB''
       = Inl (ErrorObj ''Response failed with a 400 code'')"
    "\<not> refresh_token_error ''Response failed with a 400 code''"
    by (simp_all add: env_refresh_rejected_def env_sample_def refreshAccessTokenIfNeeded_def
          refresh_token_error_def)
  from C8_refresh_failure_handling [where ls = ls_expiring and env = env_timeouts
         and ?env2.0 = env_invalid_grant and st = initial_store and u = user_A
         and hdrs = hdrs_stale and tok = "''stale''" and B = "''dbid:B''"
         and senv = env_refresh_rejected and e = expired_token
         and sess = "\<lparr>ss_accessToken = ''oldB'', ss_refreshToken = Some ''refreshB'',
                        ss_expiresAt = 0\<rparr>"
         and rt = "''refreshB''" and err = "ErrorObj ''Response failed with a 400 code''"
         and now = 0]
  show ?thesis
    using sample_expiring sample_stale_request c s by simp
qed

text \<open>
  C8, as the claim has it, fails on three counts. On the client an expired-refresh-token
  reply (401) is retried: the refresh is called 3 times. On the client three timeouts
  followed by a health check that the server answers clear the session. On the server a
  refresh that times out is not retried: one call, then 401 with \<^verbatim>\<open>shouldReauth: true\<close>.
\<close>

theorem C8_retry_counterexample:
  "it_refresh_calls (initializeFromStorage env_invalid_grant (initial_store, ls_expiring)) = 3
   \<and> session_cleared (it_ls (initializeFromStorage env_timeouts_reachable (initial_store, ls_expiring)))
   \<and> refresh_attempts (ensureValidToken env_refresh_timeout 0 hdrs_stale) = 1
   \<and> Option.bind (reply (ensureValidToken env_refresh_timeout 0 hdrs_stale)) reply_shouldReauth
        = Some True"
proof -
  have c: "ie_clock env_invalid_grant 0 = 0" "\<And>k. explicit_failure (ie_refresh env_invalid_grant k)"
    "ie_clock env_timeouts_reachable 0 = 0" "\<And>k. ie_refresh env_timeouts_reachable k = FetchHangs"
    "\<not> (ie_health env_timeouts_reachable = HealthUnreachable \<and> parses (ls_user_info ls_expiring))"
    by (simp_all add: env_timeouts_def env_invalid_grant_def env_timeouts_reachable_def)
  have s: "dropbox_account env_refresh_timeout ''stale'' = Inl expired_token"
    "sessions env_refresh_timeout ''dbid:B'' = Some \<lparr>ss_accessToken = ''oldB'',
        ss_refreshToken = Some ''refreshB'', ss_expiresAt = 0\<rparr>"
    "refreshAccessTokenIfNeeded env_refresh_timeout ''refreshB''
       = Inl (ErrorObj ''network timeout at: https://api.dropbox.com/oauth2/token'')"
    by (simp_all add: env_refresh_timeout_def env_sample_def refreshAccessTokenIfNeeded_def)
  have a: "it_refresh_calls (initializeFromStorage env_invalid_grant (initial_store, ls_expiring)) = 3"
    using client_three_failures [of ls_expiring env_invalid_grant initial_store]
      sample_expiring c by simp
  have b: "session_cleared (it_ls (initializeFromStorage env_timeouts_reachable (initial_store, ls_expiring)))"
    using client_three_timeouts [of ls_expiring env_timeouts_reachable initial_store user_A]
      sample_expiring c by simp
  have d: "refresh_attempts (ensureValidToken env_refresh_timeout 0 hdrs_stale) = 1
     \<and> Option.bind (reply (ensureValidToken env_refresh_timeout 0 hdrs_stale)) reply_shouldReauth
        = Some True"
    using server_refresh_failure [of hdrs_stale "''stale''" "''dbid:B''" env_refresh_timeout
        expired_token "\<lparr>ss_accessToken = ''oldB'', ss_refreshToken = Some ''refreshB'',
        ss_expiresAt = 0\<rparr>" "''refreshB''"
        "ErrorObj ''network timeout at: https://api.dropbox.com/oauth2/token''" 0]
      sample_stale_request s by simp
  show ?thesis using a b d by simp
qed

section \<open>Recovery: results\<close>

lemma split_go_skip: "split_go sep (length xs) acc (xs @ rest) = split_go sep 0 acc rest"
  by (induction xs) auto

lemma split_go_no_sep:
  "\<not> js_includes s sep \<Longrightarrow> sep \<noteq> [] \<Longrightarrow> split_go sep 0 acc s = [rev acc @ s]"
  by (induction s arbitrary: acc) auto

lemma js_split_after_sep:
  assumes "sep \<noteq> []" and "\<not> js_includes F sep"
  shows "js_split (sep @ F) sep = [[], F]"
proof -
  obtain c rest where sep: "sep = c # rest" using assms(1) by (cases sep) auto
  have "split_go sep 0 [] (sep @ F) = [] # split_go sep (length rest) [] (rest @ F)"
    by (simp add: sep)
  also have "\<dots> = [] # split_go sep 0 [] F" by (simp add: split_go_skip)
  also have "\<dots> = [[], F]" using assms by (simp add: split_go_no_sep)
  finally show ?thesis by (simp add: js_split_def)
qed

lemma js_includes_at_start: "sep \<noteq> [] \<Longrightarrow> js_includes (sep @ F) sep"
  by (cases sep) auto


lemma currentFileId_on_process_route:
  assumes "F \<noteq> []" and "\<not> js_includes F ''/process/''"
    and "\<not> truthy (directFileId rendered) \<or> directFileId rendered = Some F"
  shows "currentFileId (''/process/'' @ F) rendered = Some F"
proof -
  have inc: "js_includes (''/process/'' @ F) ''/process/''"
    by (rule js_includes_at_start) simp
  have spl: "js_split (''/process/'' @ F) ''/process/'' = [[], F]"
    using assms(2) by (intro js_split_after_sep) simp_all
  have "js_index (js_split (''/process/'' @ F) ''/process/'') 1 = Some F"
    unfolding spl by simp
  then show ?thesis
    using assms(1,3) inc by (auto simp: currentFileId_def js_or_def truthy_def)
qed

lemma handleAccountMismatch_keeps_directFileId:
  "directFileId (fst (handleAccountMismatch p r d sl)) = directFileId (fst sl)"
  by (simp add: handleAccountMismatch_def Let_def clear_user_data_def)

lemma handleAccountMismatch_on_file:
  assumes "currentFileId p r = Some F" and "F \<noteq> []"
  shows "savedIntent (fst (handleAccountMismatch p r d sl))
           = Some \<lparr>si_route = Some p, si_fileId = Some F, si_action = Some Processing\<rparr>
         \<and> ls_pending_file_id (snd (handleAccountMismatch p r d sl)) = Some F"
  using assms
  by (simp add: handleAccountMismatch_def Let_def clear_user_data_def truthy_def js_or_def)

lemma handleFix_on_file:
  assumes "currentFileId p r = Some F" and "F \<noteq> []"
  shows "ls_pending_file_id (snd (handleFixAccountMismatch t p r sl)) = Some F"
  using assms
  by (simp add: handleFixAccountMismatch_def Let_def truthy_def js_or_def)

lemma callback_with_pending:
  assumes "ls_pending_file_id (snd sl) = Some F" and "F \<noteq> []"
  shows "snd (snd (handleOAuthCallback t state (Some (v, state)) (Inr r) sl)) = ''/process/'' @ F
         \<and> ls_pending_file_id (fst (snd (handleOAuthCallback t state (Some (v, state)) (Inr r) sl))) = None
         \<and> directFileId (fst (handleOAuthCallback t state (Some (v, state)) (Inr r) sl)) = Some F
         \<and> savedIntent (fst (handleOAuthCallback t state (Some (v, state)) (Inr r) sl))
             = savedIntent (fst sl)"
  using assms
  by (cases "truthy (ex_refreshToken r)")
     (simp_all add: handleOAuthCallback_def Let_def truthy_def storeTokenWithExpiration_def)

text \<open>
  C6. A user is on route \<^verbatim>\<open>/process/F\<close> (F a non-empty file id that does not itself contain
  \<^verbatim>\<open>/process/\<close>), processing that file: the store's \<^verbatim>\<open>directFileId\<close> is F or not set. A mismatch
  event arrives, the user presses Fix, logs in again and the code exchange succeeds. Then the
  callback navigates to \<^verbatim>\<open>/process/F\<close>, and afterwards nothing of the saved intent is left:
  the store's \<^verbatim>\<open>savedIntent\<close> is null and \<^verbatim>\<open>pending_file_id\<close> is gone from \<^verbatim>\<open>localStorage\<close>.
\<close>

theorem C6_intent_round_trip:
  assumes "F \<noteq> []" and "\<not> js_includes F ''/process/''"
    and "\<not> truthy (directFileId st) \<or> directFileId st = Some F"
  shows "snd (snd (recovery_round_trip (''/process/'' @ F) detail tFix tBack state
                     (Some (verifier, state)) (Inr r) (st, ls))) = ''/process/'' @ F
         \<and> savedIntent (fst (recovery_round_trip (''/process/'' @ F) detail tFix tBack state
                     (Some (verifier, state)) (Inr r) (st, ls))) = None
         \<and> ls_pending_file_id (fst (snd (recovery_round_trip (''/process/'' @ F) detail tFix tBack state
                     (Some (verifier, state)) (Inr r) (st, ls)))) = None"
proof -
  let ?p = "''/process/'' @ F"
  let ?sl1 = "handleAccountMismatch ?p st detail (st, ls)"
  let ?sl2 = "handleFixAccountMismatch tFix ?p (fst ?sl1) ?sl1"
  let ?sl4 = "page_load (handleLogin (page_load ?sl2))"
  have d1: "\<not> truthy (directFileId (fst ?sl1)) \<or> directFileId (fst ?sl1) = Some F"
    using assms(3) by (simp add: handleAccountMismatch_keeps_directFileId)
  have fixd: "ls_pending_file_id (snd ?sl2) = Some F"
    using currentFileId_on_process_route [OF assms(1,2) d1] assms(1)
    by (rule handleFix_on_file)
  have pend: "ls_pending_file_id (snd ?sl4) = Some F"
    using fixd by (simp add: page_load_def handleLogin_def Let_def initial_store_def truthy_def)
  have fresh: "savedIntent (fst ?sl4) = None"
    by (simp add: page_load_def initial_store_def)
  have "recovery_round_trip ?p detail tFix tBack state (Some (verifier, state)) (Inr r) (st, ls)
          = handleOAuthCallback tBack state (Some (verifier, state)) (Inr r) ?sl4"
    by (simp add: recovery_round_trip_def Let_def)
  with callback_with_pending [OF pend assms(1), of tBack state verifier r] fresh
  show ?thesis by simp
qed



theorem C6_intent_round_trip_witness:
  "snd (snd (recovery_round_trip ''/process/id:F1'' mismatch_detail 5000 9000 ''xyz''
               (Some (''verifier'', ''xyz'')) (Inr exchange_B) (store_on_file, ls_A)))
     = ''/process/id:F1''
   \<and> savedIntent (fst (recovery_round_trip ''/process/id:F1'' mismatch_detail 5000 9000 ''xyz''
               (Some (''verifier'', ''xyz'')) (Inr exchange_B) (store_on_file, ls_A))) = None
   \<and> ls_pending_file_id (fst (snd (recovery_round_trip ''/process/id:F1'' mismatch_detail 5000 9000
               ''xyz'' (Some (''verifier'', ''xyz'')) (Inr exchange_B) (store_on_file, ls_A)))) = None"
proof -
  have a: "''id:F1'' \<noteq> []" "\<not> js_includes ''id:F1'' ''/process/''"
    "\<not> truthy (directFileId store_on_file) \<or> directFileId store_on_file = Some ''id:F1''"
    by (simp_all add: store_on_file_def store_A_def initial_store_def)
  from C6_intent_round_trip [OF a, of mismatch_detail 5000 9000 "''xyz''" "''verifier''"
         exchange_B ls_A]
  show ?thesis by simp
qed

lemma SmartRedirect_restores_intent:
  assumes "isAuthenticated st" and "recentlyReauthorized st"
    and "\<not> truthy (ls_pending_file_id ls)" and "\<not> truthy (ls_direct_file_id_oauth ls)"
    and "savedIntent st = Some \<lparr>si_route = Some (''/process/'' @ F), si_fileId = Some F,
                                 si_action = Some Processing\<rparr>"
    and "F \<noteq> []"
  shows "snd (SmartRedirect (st, ls)) = Some (''/process/'' @ F)
         \<and> savedIntent (fst (SmartRedirect (st, ls))) = None
         \<and> directFileId (fst (SmartRedirect (st, ls))) = Some F"
proof -
  have "js_includes (''/process/'' @ F) ''/process/''"
    by (rule js_includes_at_start) simp
  then show ?thesis
    using assms by (simp add: SmartRedirect_def Let_def truthy_def)
qed

text \<open>
  C7, as the code has it. Every mismatch event runs the handler in full; there is no guard
  for a mismatch already being handled. The banner is a flag, set again by each run. A
  second event handled by the same render's handler captures the same intent and the same
  pending file id as the first. A second event handled after the layout rendered again
  does so too when the file reference comes from \<^verbatim>\<open>directFileId\<close> or from a \<^verbatim>\<open>/process/<id>\<close>
  route.
\<close>

theorem C7_second_trigger:
  "showAccountMismatchBanner (fst (handleAccountMismatch p r d sl))
   \<and> (savedIntent (fst (handleAccountMismatch p r d2 (handleAccountMismatch p r d sl)))
        = savedIntent (fst (handleAccountMismatch p r d sl))
      \<and> ls_pending_file_id (snd (handleAccountMismatch p r d2 (handleAccountMismatch p r d sl)))
        = ls_pending_file_id (snd (handleAccountMismatch p r d sl)))
   \<and> (truthy (currentFileId p (fst sl)) \<longrightarrow>
        savedIntent (fst (handleAccountMismatch p (fst (handleAccountMismatch p (fst sl) d sl)) d2
                            (handleAccountMismatch p (fst sl) d sl)))
          = savedIntent (fst (handleAccountMismatch p (fst sl) d sl))
        \<and> ls_pending_file_id (snd (handleAccountMismatch p (fst (handleAccountMismatch p (fst sl) d sl)) d2
                            (handleAccountMismatch p (fst sl) d sl)))
          = ls_pending_file_id (snd (handleAccountMismatch p (fst sl) d sl)))"
proof (intro conjI impI)
  show "showAccountMismatchBanner (fst (handleAccountMismatch p r d sl))"
    by (simp add: handleAccountMismatch_def Let_def)
  show "savedIntent (fst (handleAccountMismatch p r d2 (handleAccountMismatch p r d sl)))
        = savedIntent (fst (handleAccountMismatch p r d sl))"
    by (simp add: handleAccountMismatch_def Let_def clear_user_data_def)
  show "ls_pending_file_id (snd (handleAccountMismatch p r d2 (handleAccountMismatch p r d sl)))
        = ls_pending_file_id (snd (handleAccountMismatch p r d sl))"
    by (simp add: handleAccountMismatch_def Let_def clear_user_data_def)
next
  assume t: "truthy (currentFileId p (fst sl))"
  let ?sl1 = "handleAccountMismatch p (fst sl) d sl"
  have same: "currentFileId p (fst ?sl1) = currentFileId p (fst sl)"
    by (simp add: currentFileId_def handleAccountMismatch_keeps_directFileId)
  obtain F where F: "currentFileId p (fst sl) = Some F" "F \<noteq> []"
    using t by (auto simp: truthy_def split: option.splits)
  from F same have F1: "currentFileId p (fst ?sl1) = Some F" by simp
  show "savedIntent (fst (handleAccountMismatch p (fst ?sl1) d2 ?sl1)) = savedIntent (fst ?sl1)"
    using handleAccountMismatch_on_file [OF F1 F(2)] handleAccountMismatch_on_file [OF F]
    by simp
  show "ls_pending_file_id (snd (handleAccountMismatch p (fst ?sl1) d2 ?sl1))
          = ls_pending_file_id (snd ?sl1)"
    using handleAccountMismatch_on_file [OF F1 F(2)] handleAccountMismatch_on_file [OF F]
    by simp
qed


theorem C7_second_trigger_witness:
  "showAccountMismatchBanner
     (fst (handleAccountMismatch ''/process/id:F1'' store_on_file mismatch_detail (store_on_file, ls_A)))
   \<and> savedIntent (fst (handleAccountMismatch ''/process/id:F1''
        (fst (handleAccountMismatch ''/process/id:F1'' store_on_file mismatch_detail (store_on_file, ls_A)))
        mismatch_detail
        (handleAccountMismatch ''/process/id:F1'' store_on_file mismatch_detail (store_on_file, ls_A))))
     = savedIntent (fst (handleAccountMismatch ''/process/id:F1'' store_on_file mismatch_detail
                           (store_on_file, ls_A)))"
proof -
  have a: "truthy (currentFileId ''/process/id:F1'' (fst (store_on_file, ls_A)))"
    by (simp add: currentFileId_def js_or_def truthy_def store_on_file_def store_A_def
          initial_store_def)
  from C7_second_trigger [where p = "''/process/id:F1''" and r = store_on_file
         and d = mismatch_detail and ?d2.0 = mismatch_detail and sl = "(store_on_file, ls_A)"]
  show ?thesis using a by simp
qed

text \<open>
  C7, as the claim has it, fails: the second trigger is not a no-op. With an image picked
  from the gallery on route \<^verbatim>\<open>/process\<close> (no \<^verbatim>\<open>directFileId\<close>), the first event saves the
  processing intent for that image and clears the selection; after the layout has rendered
  again, a second event overwrites the saved intent with the bare selection intent.
\<close>

theorem C7_overwrite_counterexample:
  "savedIntent (fst (handleAccountMismatch ''/process'' store_picked mismatch_detail (store_picked, ls_A)))
     = Some \<lparr>si_route = Some ''/process'', si_fileId = Some ''id:F1'', si_action = Some Processing\<rparr>
   \<and> savedIntent (fst (handleAccountMismatch ''/process''
        (fst (handleAccountMismatch ''/process'' store_picked mismatch_detail (store_picked, ls_A)))
        mismatch_detail
        (handleAccountMismatch ''/process'' store_picked mismatch_detail (store_picked, ls_A))))
     = Some \<lparr>si_route = None, si_fileId = None, si_action = Some Selection\<rparr>"
  by (simp add: handleAccountMismatch_def Let_def clear_user_data_def currentFileId_def
        hasSelectedImage_def store_picked_def store_A_def initial_store_def image_F_def
        js_or_def truthy_def ls_A_def empty_storage_def)


end
